theory Spec2Isabelle
  imports Complex_Main "HOL-Library.Multiset" "HOL-Library.AList"
begin

section \<open>Data model\<close>

text \<open>
  The viewer is JavaScript. Numbers that hold Unix timestamps, durations, counters and
  bandwidths are integer valued and far below \<open>2^53\<close>, so they are modelled as \<open>int\<close>.
  Coordinates and marker offsets are IEEE doubles in the source; they are modelled in
  exact real arithmetic (\<open>real\<close>), so statements about them are statements about the
  formulas the code evaluates, not about rounding.
\<close>

subsection \<open>JavaScript truthiness\<close>

text \<open>
  A field of a JSON record that is missing or \<open>undefined\<close> is \<open>None\<close>.
  \<open>a || b\<close> and \<open>a ? b : c\<close> take \<open>a\<close> as falsy when it is missing, \<open>null\<close>, the empty
  string or the number 0, so under these operators \<open>null\<close> is \<open>None\<close> as well. In
  arithmetic \<open>null\<close> is the number 0 where \<open>undefined\<close> gives \<open>NaN\<close>. The one field
  the code uses in arithmetic without a guard is \<open>started\<close> (\<open>started * 1000\<close>,
  \<open>started + duration\<close>, \<open>started || Date.now()\<close>), where \<open>null\<close> and 0 behave alike in
  every use: a record with \<open>started: null\<close> is the record with \<open>started = Some 0\<close>.
\<close>

definition truthyS :: "string option \<Rightarrow> bool" where
  "truthyS a = (case a of None \<Rightarrow> False | Some s \<Rightarrow> s \<noteq> [])"

definition truthyN :: "int option \<Rightarrow> bool" where
  "truthyN a = (case a of None \<Rightarrow> False | Some n \<Rightarrow> n \<noteq> 0)"

definition truthyR :: "real option \<Rightarrow> bool" where
  "truthyR a = (case a of None \<Rightarrow> False | Some x \<Rightarrow> x \<noteq> 0)"

definition orS :: "string option \<Rightarrow> string \<Rightarrow> string" where
  "orS a b = (if truthyS a then the a else b)"

definition orN :: "int option \<Rightarrow> int \<Rightarrow> int" where
  "orN a b = (if truthyN a then the a else b)"

text \<open>\<open>a || b\<close> where \<open>b\<close> may itself be missing.\<close>

definition orElseS :: "string option \<Rightarrow> string option \<Rightarrow> string option" where
  "orElseS a b = (if truthyS a then a else b)"

subsection \<open>Sessions\<close>

text \<open>
  Session keys are built by template literals such as
  \<^verbatim>\<open>`hist-${id}-${n}`\<close>. A key is modelled as the list of the template's pieces;
  concatenating templates is list append.
\<close>

datatype keypart = Str string | Num int | Rnd real

type_synonym jskey = "keypart list"

record latlon =
  lat :: real
  lon :: real

record location = latlon +
  city :: string
  region :: "string option"
  country :: string
  isp :: "string option"

record media =
  title :: string
  mtype :: "string option"
  year :: "int option"
  grandparentTitle :: "string option"
  parentTitle :: "string option"

record streaminfo =
  bandwidth :: int
  quality :: string
  player :: "string option"
  platform :: "string option"

text \<open>
  The fields shared by a live stream (built in \<open>getActiveStreams\<close>) and a historical
  session (built in \<open>getHistoryDays\<close>); the map reads only these. The live stream's
  playback-progress fields (\<open>state\<close>, \<open>videoDecision\<close>, \<open>audioDecision\<close>, \<open>progress\<close>,
  \<open>thumb\<close>, \<open>startedAt\<close>) are copied from the input and read by nothing.
\<close>

record stream =
  sessionKey :: jskey
  userId :: "int option"
  username :: string
  ipAddress :: "string option"
  location :: "location option"
  media :: media
  strm :: streaminfo

record session = stream +
  startTime :: int
  stopTime :: int
  duration :: int
  pausedDuration :: int
  watchedDuration :: int

text \<open>A raw record of the Tautulli API (\<open>get_activity\<close> and \<open>get_history\<close>).\<close>

record raw =
  session_key :: "string option"
  reference_id :: "int option"
  r_id :: "int option"
  user :: "string option"
  r_username :: "string option"
  friendly_name :: "string option"
  user_id :: "int option"
  ip_address :: "string option"
  r_title :: "string option"
  full_title :: "string option"
  media_type :: "string option"
  r_year :: "int option"
  grandparent_title :: "string option"
  parent_title :: "string option"
  r_player :: "string option"
  r_platform :: "string option"
  quality_profile :: "string option"
  transcode_decision :: "string option"
  r_bandwidth :: "int option"
  date :: int
  started :: "int option"
  stopped :: "int option"
  r_duration :: "int option"
  paused_duration :: "int option"

subsection \<open>Configuration, clock and the Tautulli server\<close>

record config =
  apiKey :: string
  serverLat :: real
  serverLon :: real
  refreshInterval :: int

definition isConfigured :: "config \<Rightarrow> bool" where
  "isConfigured c = (apiKey c \<noteq> [])"

text \<open>
  What the browser supplies: \<open>now\<close> is \<open>Date.now()\<close>; \<open>daysAgo d\<close> is the instant
  \<open>setDate(getDate() - d)\<close> computes from now; \<open>tz t\<close> is the local-time offset in
  milliseconds at instant \<open>t\<close>; \<open>random k\<close> is the \<open>k\<close>-th value \<open>Math.random()\<close> returns.
\<close>

record env =
  now :: int
  daysAgo :: "int \<Rightarrow> int"
  tz :: "int \<Rightarrow> int"
  random :: "nat \<Rightarrow> real"

datatype error = HttpError int | ApiError string | NetworkError | TypeError

record rawgeo =
  latitude :: "real option"
  longitude :: "real option"
  g_city :: "string option"
  g_region :: "string option"
  g_country :: "string option"
  g_isp :: "string option"

record activity =
  sessions :: "raw list option"

record history_params =
  p_length :: nat
  order_column :: string
  order_dir :: string
  include_activity :: int

record history_response =
  h_data :: "raw list option"
  recordsTotal :: "nat option"

text \<open>
  \<open>request(cmd, params)\<close> returns \<open>data.response.data\<close> or throws; one field per command
  the viewer issues. \<open>Inl\<close> is the thrown error.
\<close>

record server =
  get_activity :: "error + activity option"
  get_geoip_lookup :: "string \<Rightarrow> error + rawgeo option"
  get_history :: "history_params \<Rightarrow> error + history_response"

subsection \<open>MapManager (the map module)\<close>

text \<open>
  \<^verbatim>\<open>
  calculateOffset(index, total) {
      if (total === 1) return { lat: 0, lon: 0 };
      const angle = (2 * Math.PI * index) / total;
      const radius = 0.002;
      return { lat: radius * Math.sin(angle),
               lon: radius * Math.cos(angle) * 1.5 };
  }
  \<close>
\<close>

definition calculateOffset :: "nat \<Rightarrow> nat \<Rightarrow> latlon" where
  "calculateOffset index ntotal =
     (if ntotal = 1 then \<lparr>lat = 0, lon = 0\<rparr>
      else (let angle = (2 * pi * real index) / real ntotal;
                radius = 0.002
            in \<lparr>lat = radius * sin angle, lon = radius * cos angle * 1.5\<rparr>))"

text \<open>
  A marker keeps its position, the stream stored on it when it was created
  (\<open>marker.streamData\<close>) and the stream its tooltip was last rendered from. A polyline
  keeps its two end points and its style. \<open>markers\<close> and \<open>connections\<close> are JavaScript
  \<open>Map\<close>s: association lists in insertion order. Tile layers, arrow decorations,
  z-order and the dash animation belong to the rendering surface.
\<close>

record marker =
  latLng :: latlon
  iconColor :: string
  streamData :: stream
  tooltip :: stream

record polyline =
  latLngs :: "latlon \<times> latlon"
  color :: string
  dashArray :: "string option"

record mapManager =
  markers :: "(jskey \<times> marker) list"
  connections :: "(jskey \<times> polyline) list"
  hasInitiallyFitted :: bool

definition getColorForBandwidth :: "int \<Rightarrow> string" where
  "getColorForBandwidth bw =
     (if bw > 20000 then ''#ff4444''
      else if bw > 10000 then ''#ff8844''
      else if bw > 5000 then ''#ffaa44''
      else if bw > 2000 then ''#ffcc44''
      else ''#44ff44'')"

definition serverPos :: "config \<Rightarrow> latlon" where
  "serverPos cfg = \<lparr>lat = serverLat cfg, lon = serverLon cfg\<rparr>"

definition removeStream :: "jskey \<Rightarrow> mapManager \<Rightarrow> mapManager" where
  "removeStream key mm =
     mm\<lparr>markers := AList.delete key (markers mm),
        connections := AList.delete key (connections mm)\<rparr>"

definition createUserMarker :: "latlon \<Rightarrow> stream \<Rightarrow> marker" where
  "createUserMarker position s =
     \<lparr>latLng = position, iconColor = getColorForBandwidth (bandwidth (strm s)),
      streamData = s, tooltip = s\<rparr>"

text \<open>The bandwidth read back from the marker: \<open>marker?.streamData?.stream?.bandwidth || 0\<close>.\<close>

definition markerBandwidth :: "jskey \<Rightarrow> mapManager \<Rightarrow> int" where
  "markerBandwidth key mm =
     (case map_of (markers mm) key of None \<Rightarrow> 0 | Some m \<Rightarrow> bandwidth (strm (streamData m)))"

definition createConnection :: "config \<Rightarrow> jskey \<Rightarrow> latlon \<Rightarrow> mapManager \<Rightarrow> mapManager" where
  "createConnection cfg key userPos mm =
     (let bandwidthColor = getColorForBandwidth (markerBandwidth key mm);
          pl = \<lparr>latLngs = (serverPos cfg, userPos), color = bandwidthColor, dashArray = None\<rparr>
      in mm\<lparr>connections := AList.update key pl (connections mm)\<rparr>)"

definition updateConnection :: "config \<Rightarrow> jskey \<Rightarrow> latlon \<Rightarrow> mapManager \<Rightarrow> mapManager" where
  "updateConnection cfg key userPos mm =
     (case map_of (connections mm) key of
        None \<Rightarrow> mm
      | Some pl \<Rightarrow>
          (let bandwidthColor = getColorForBandwidth (markerBandwidth key mm);
               pl' = pl\<lparr>latLngs := (serverPos cfg, userPos), color := bandwidthColor\<rparr>
           in mm\<lparr>connections := AList.update key pl' (connections mm)\<rparr>))"

definition addOrUpdateStream ::
  "config \<Rightarrow> 'a stream_scheme \<Rightarrow> latlon \<Rightarrow> mapManager \<Rightarrow> mapManager" where
  "addOrUpdateStream cfg s off mm =
     (let key = sessionKey s in
      case location s of
        None \<Rightarrow> mm
      | Some loc \<Rightarrow>
          (let userPos = \<lparr>lat = lat loc + lat off, lon = lon loc + lon off\<rparr> in
           case map_of (markers mm) key of
             Some m \<Rightarrow>
               updateConnection cfg key userPos
                 (mm\<lparr>markers := AList.update key
                        (m\<lparr>latLng := userPos, tooltip := stream.truncate s\<rparr>) (markers mm)\<rparr>)
           | None \<Rightarrow>
               createConnection cfg key userPos
                 (mm\<lparr>markers := AList.update key
                        (createUserMarker userPos (stream.truncate s)) (markers mm)\<rparr>)))"

text \<open>
  The location key \<^verbatim>\<open>`${lat},${lon}`\<close> groups streams with equal coordinates.
  \<open>sameLocStreams.indexOf(stream)\<close> finds the stream object itself, so the stream at
  batch position \<open>p\<close> gets as index the number of earlier streams at its location.
\<close>

definition locKey :: "'a location_scheme \<Rightarrow> real \<times> real" where
  "locKey l = (lat l, lon l)"

definition sameLocStreams :: "'a stream_scheme list \<Rightarrow> real \<times> real \<Rightarrow> 'a stream_scheme list" where
  "sameLocStreams streams k =
     filter (\<lambda>s. case location s of None \<Rightarrow> False | Some l \<Rightarrow> locKey l = k) streams"

definition placeStream ::
  "config \<Rightarrow> 'a stream_scheme list \<Rightarrow> nat \<Rightarrow> mapManager \<Rightarrow> mapManager" where
  "placeStream cfg streams p mm =
     (let s = streams ! p in
      case location s of
        None \<Rightarrow> mm
      | Some loc \<Rightarrow>
          (let streamIndex = length (sameLocStreams (take p streams) (locKey loc));
               off = calculateOffset streamIndex (length (sameLocStreams streams (locKey loc)))
           in addOrUpdateStream cfg s off mm))"

definition updateStreams :: "config \<Rightarrow> 'a stream_scheme list \<Rightarrow> mapManager \<Rightarrow> mapManager" where
  "updateStreams cfg streams mm =
     (let currentStreamKeys = set (map sessionKey streams);
          toRemove = filter (\<lambda>key. key \<notin> currentStreamKeys) (map fst (markers mm));
          mm1 = fold removeStream toRemove mm;
          mm2 = fold (placeStream cfg streams) [0..<length streams] mm1
      in if streams \<noteq> [] \<and> \<not> hasInitiallyFitted mm2
         then mm2\<lparr>hasInitiallyFitted := True\<rparr> else mm2)"

subsection \<open>tautulli-api.js: TautulliAPI\<close>

text \<open>
  The API object's mutable state: the GeoIP cache, and how many values have been taken
  from \<open>Math.random()\<close> so far.
\<close>

record apistate =
  geoip :: "string \<rightharpoonup> location"
  drawn :: nat

definition startsWith :: "string \<Rightarrow> string \<Rightarrow> bool" where
  "startsWith s p = (take (length p) s = p)"

definition isLocalIP :: "string \<Rightarrow> bool" where
  "isLocalIP ip =
     (ip = ''127.0.0.1'' \<or> ip = ''localhost'' \<or> startsWith ip ''192.168.''
      \<or> startsWith ip ''10.'' \<or> startsWith ip ''172.'')"

text \<open>\<open>getActivity\<close> catches every error of the request and returns \<open>null\<close>.\<close>

definition getActivity :: "server \<Rightarrow> activity option" where
  "getActivity srv = (case get_activity srv of Inl e \<Rightarrow> None | Inr d \<Rightarrow> d)"

definition getGeoIP :: "server \<Rightarrow> string \<Rightarrow> apistate \<Rightarrow> location option \<times> apistate" where
  "getGeoIP srv ip st =
     (if isLocalIP ip then (None, st)
      else case geoip st ip of
        Some g \<Rightarrow> (Some g, st)
      | None \<Rightarrow>
          (case get_geoip_lookup srv ip of
             Inl e \<Rightarrow> (None, st)
           | Inr None \<Rightarrow> (None, st)
           | Inr (Some d) \<Rightarrow>
               if truthyR (latitude d) \<and> truthyR (longitude d) then
                 (let geoData = \<lparr>lat = the (latitude d), lon = the (longitude d),
                                 city = orS (g_city d) ''Unknown'',
                                 region = Some (orS (g_region d) []),
                                 country = orS (g_country d) ''Unknown'',
                                 isp = Some (orS (g_isp d) ''Unknown ISP'')\<rparr>
                  in (Some geoData, st\<lparr>geoip := (geoip st)(ip \<mapsto> geoData)\<rparr>))
               else (None, st)))"

text \<open>
  The default location \<open>getActiveStreams\<close> creates for the session at batch position
  \<open>index\<close> of \<open>n\<close> when the lookup gave nothing.
\<close>

definition defaultLocation :: "config \<Rightarrow> string \<Rightarrow> nat \<Rightarrow> nat \<Rightarrow> location" where
  "defaultLocation cfg ip index n =
     (let angle = (2 * pi * real index) / real n;
          radius = 0.01
      in \<lparr>lat = serverLat cfg + radius * sin angle,
          lon = serverLon cfg + radius * cos angle,
          city = (if isLocalIP ip then ''Local Network'' else ''Unknown''),
          region = Some [],
          country = (if isLocalIP ip then ''LAN'' else ''Unknown''),
          isp = Some (if isLocalIP ip then ''Local Network'' else ''Unknown ISP'')\<rparr>)"

text \<open>
  One callback of \<open>activity.sessions.map(async (session, index) => ...)\<close>. A session
  without \<open>ip_address\<close> makes \<open>isLocalIP\<close> call \<open>startsWith\<close> on \<open>undefined\<close>, which
  throws.
\<close>

definition liveStream ::
  "server \<Rightarrow> config \<Rightarrow> env \<Rightarrow> nat \<Rightarrow> raw \<Rightarrow> nat \<Rightarrow> apistate \<Rightarrow> (error + stream) \<times> apistate" where
  "liveStream srv cfg e n r index st =
     (case ip_address r of
        None \<Rightarrow> (Inl TypeError, st)
      | Some ip \<Rightarrow>
          (let (found, st') = getGeoIP srv ip st;
               geoData = (case found of Some g \<Rightarrow> g | None \<Rightarrow> defaultLocation cfg ip index n);
               uniqueSessionKey =
                 (if truthyS (session_key r)
                  then [Str (the (session_key r)), Str ''-'', Num (orN (started r) (now e)),
                        Str ''-'', Num (int index)]
                  else [Str ''session-'', Num (now e), Str ''-'', Num (int index)])
           in (Inr \<lparr>sessionKey = uniqueSessionKey,
                    userId = user_id r,
                    username = orS (orElseS (friendly_name r) (r_username r)) ''Unknown User'',
                    ipAddress = Some ip,
                    location = Some geoData,
                    media = \<lparr>title = orS (r_title r) ''Unknown Title'', mtype = media_type r,
                             year = r_year r, grandparentTitle = grandparent_title r,
                             parentTitle = parent_title r\<rparr>,
                    strm = \<lparr>bandwidth = orN (r_bandwidth r) 0,
                            quality = orS (quality_profile r) ''Unknown'',
                            player = Some (orS (r_player r) ''Unknown Player''),
                            platform = Some (orS (r_platform r) ''Unknown Platform'')\<rparr>\<rparr>,
               st')))"

fun liveStreams ::
  "server \<Rightarrow> config \<Rightarrow> env \<Rightarrow> nat \<Rightarrow> raw list \<Rightarrow> nat \<Rightarrow> apistate \<Rightarrow> (error + stream) list \<times> apistate" where
  "liveStreams srv cfg e n [] index st = ([], st)"
| "liveStreams srv cfg e n (r # rs) index st =
     (let (x, st1) = liveStream srv cfg e n r index st;
          (xs, st2) = liveStreams srv cfg e n rs (Suc index) st1
      in (x # xs, st2))"

text \<open>
  \<open>getActiveStreams\<close>: no activity or no session list gives \<open>[]\<close>; \<open>Promise.all\<close>
  rejects when one callback throws, and the surrounding \<open>catch\<close> then returns \<open>[]\<close>.
  Every stream built has a location, so the final \<open>filter\<close> keeps all of them.
\<close>

definition getActiveStreams :: "server \<Rightarrow> config \<Rightarrow> env \<Rightarrow> apistate \<Rightarrow> stream list \<times> apistate" where
  "getActiveStreams srv cfg e st =
     (case getActivity srv of
        None \<Rightarrow> ([], st)
      | Some act \<Rightarrow>
          (case sessions act of
             None \<Rightarrow> ([], st)
           | Some ss \<Rightarrow>
               (let (results, st') = liveStreams srv cfg e (length ss) ss 0 st in
                if filter isl results \<noteq> [] then ([], st')
                else (filter (\<lambda>s. location s \<noteq> None) (map projr results), st'))))"

text \<open>
  \<open>getLocationFromIP\<close>: when the lookup gives nothing, a location near the server
  with two random offsets, \<open>(Math.random() - 0.5) * 0.02\<close> each, latitude first.
\<close>

definition randomOffset :: "env \<Rightarrow> nat \<Rightarrow> real" where
  "randomOffset e k = (random e k - 0.5) * 0.02"

definition getLocationFromIP ::
  "server \<Rightarrow> config \<Rightarrow> env \<Rightarrow> string \<Rightarrow> apistate \<Rightarrow> location \<times> apistate" where
  "getLocationFromIP srv cfg e ip st =
     (let (geoData, st') = getGeoIP srv ip st in
      case geoData of
        None \<Rightarrow>
          (\<lparr>lat = serverLat cfg + randomOffset e (drawn st'),
            lon = serverLon cfg + randomOffset e (Suc (drawn st')),
            city = (if isLocalIP ip then ''Local Network'' else ''Unknown''),
            region = Some [],
            country = (if isLocalIP ip then ''LAN'' else ''Unknown''),
            isp = Some (if isLocalIP ip then ''Local Network'' else ''Unknown ISP'')\<rparr>,
           st'\<lparr>drawn := drawn st' + 2\<rparr>)
      | Some g \<Rightarrow> (g, st'))"

text \<open>The request \<open>getHistoryDays\<close> issues, whatever the number of days.\<close>

definition historyDaysParams :: history_params where
  "historyDaysParams =
     \<lparr>p_length = 1000, order_column = ''date'', order_dir = ''desc'', include_activity = 1\<rparr>"

text \<open>
  The client-side date filter. \<open>session.started * 1000\<close> is \<open>NaN\<close> when \<open>started\<close> is
  missing, and every comparison with \<open>NaN\<close> is false. (\<open>started: null\<close> is
  \<open>Some 0\<close>, for which the product is 0.)
\<close>

definition inRange :: "int \<Rightarrow> int \<Rightarrow> raw \<Rightarrow> bool" where
  "inRange startDate endDate r =
     (case started r of
        None \<Rightarrow> False
      | Some s \<Rightarrow> s * 1000 \<ge> startDate \<and> s * 1000 \<le> endDate)"

text \<open>
  The identifier inside a historical key:
  \<open>reference_id || session_key || id || Math.random()\<close>.
\<close>

definition historyKeyId :: "env \<Rightarrow> raw \<Rightarrow> apistate \<Rightarrow> keypart \<times> apistate" where
  "historyKeyId e r st =
     (if truthyN (reference_id r) then (Num (the (reference_id r)), st)
      else if truthyS (session_key r) then (Str (the (session_key r)), st)
      else if truthyN (r_id r) then (Num (the (r_id r)), st)
      else (Rnd (random e (drawn st)), st\<lparr>drawn := Suc (drawn st)\<rparr>))"

text \<open>
  One pass of the loop over \<open>filteredHistory\<close>. The date filter has kept only records
  whose \<open>started\<close> is a number, so \<open>the (started r)\<close> is that number.
\<close>

definition processSession ::
  "server \<Rightarrow> config \<Rightarrow> env \<Rightarrow> raw \<Rightarrow> nat \<Rightarrow> apistate \<Rightarrow> session \<times> apistate" where
  "processSession srv cfg e r processedCount st =
     (let (locationData, st1) = getLocationFromIP srv cfg e (orS (ip_address r) ''0.0.0.0'') st;
          (keyId, st2) = historyKeyId e r st1
      in (\<lparr>sessionKey = [Str ''hist-'', keyId, Str ''-'', Num (int processedCount)],
           userId = user_id r,
           username = orS (orElseS (orElseS (user r) (r_username r)) (friendly_name r))
                        ''Unknown User'',
           ipAddress = Some (orS (ip_address r) ''Unknown''),
           location = Some locationData,
           media = \<lparr>title = orS (orElseS (full_title r) (r_title r)) ''Unknown'',
                    mtype = media_type r, year = r_year r,
                    grandparentTitle = Some (orS (grandparent_title r) []),
                    parentTitle = Some (orS (parent_title r) [])\<rparr>,
           strm = \<lparr>bandwidth = orN (r_bandwidth r) 0,
                   quality = orS (orElseS (quality_profile r) (transcode_decision r)) ''Unknown'',
                   player = r_player r, platform = r_platform r\<rparr>,
           startTime = the (started r) * 1000,
           stopTime = (if truthyN (stopped r) then the (stopped r) * 1000
                       else (the (started r) + orN (r_duration r) 0) * 1000),
           duration = orN (r_duration r) 0,
           pausedDuration = orN (paused_duration r) 0,
           watchedDuration = orN (r_duration r) 0 - orN (paused_duration r) 0\<rparr>,
          st2))"

fun processHistory ::
  "server \<Rightarrow> config \<Rightarrow> env \<Rightarrow> raw list \<Rightarrow> nat \<Rightarrow> apistate \<Rightarrow> session list \<times> apistate" where
  "processHistory srv cfg e [] processedCount st = ([], st)"
| "processHistory srv cfg e (r # rs) processedCount st =
     (let (processedSession, st1) = processSession srv cfg e r processedCount st;
          (rest, st2) = processHistory srv cfg e rs (Suc processedCount) st1
      in (processedSession # rest, st2))"

text \<open>
  \<open>getHistoryDays(days)\<close>: one request of at most 1000 records, newest first; the
  records are filtered to the window, processed in order and sorted by start time
  (\<open>Array.prototype.sort\<close> is stable). A failed request gives \<open>[]\<close>.
\<close>

definition getHistoryDays ::
  "server \<Rightarrow> config \<Rightarrow> env \<Rightarrow> int \<Rightarrow> apistate \<Rightarrow> session list \<times> apistate" where
  "getHistoryDays srv cfg e days st =
     (let endDate = now e;
          startDate = daysAgo e days
      in case get_history srv historyDaysParams of
           Inl err \<Rightarrow> ([], st)
         | Inr data \<Rightarrow>
             (let history = (case h_data data of None \<Rightarrow> [] | Some h \<Rightarrow> h);
                  filteredHistory = filter (inRange startDate endDate) history;
                  (processedHistory, st') = processHistory srv cfg e filteredHistory 0 st
              in (sort_key startTime processedHistory, st')))"

text \<open>
  Local time. \<open>new Date(t).getHours()\<close> is the hour of the local wall clock; the
  string that \<open>toLocaleDateString()\<close> gives names the local calendar day and is
  represented here by the number of that day.
\<close>

definition getHours :: "env \<Rightarrow> int \<Rightarrow> nat" where
  "getHours e t = nat (((t + tz e t) div 3600000) mod 24)"

definition toLocaleDateString :: "env \<Rightarrow> int \<Rightarrow> int" where
  "toLocaleDateString e t = (t + tz e t) div 86400000"

text \<open>
  \<open>getHistoryStats\<close>. \<open>uniqueUsers\<close> and \<open>uniqueCountries\<close> are \<open>Set\<close>s while the loop
  runs and are replaced by their sizes at the end; the record is polymorphic in the
  type of these two fields. \<open>byUser\<close>, \<open>byCountry\<close> and \<open>byDay\<close> are plain objects
  (\<open>{}\<close>) used as dictionaries; the maps below hold their own properties. Reading
  \<open>obj[k]\<close> also finds what every object inherits from \<open>Object.prototype\<close>, which
  matters for \<open>byUser\<close> and \<open>byCountry\<close>, whose keys are strings of the input. A key
  of \<open>byDay\<close> is a formatted date, never such a name.
\<close>

text \<open>
  The property names of \<open>Object.prototype\<close>. Each has a truthy value: a function, or
  for \<open>__proto__\<close> the prototype object itself.
\<close>

definition inheritedName :: "string \<Rightarrow> bool" where
  "inheritedName k =
     (k \<in> set [''constructor'', ''hasOwnProperty'', ''isPrototypeOf'',
                ''propertyIsEnumerable'', ''toLocaleString'', ''toString'', ''valueOf'',
                ''__proto__'', ''__defineGetter__'', ''__defineSetter__'',
                ''__lookupGetter__'', ''__lookupSetter__''])"

text \<open>
  A value of \<open>byCountry\<close>: a number, or the string that \<open>f + 1\<close> gives for an
  inherited function \<open>f\<close>: the text of \<open>f\<close> followed by a number of characters
  \<open>1\<close>.
\<close>

datatype tally = Count nat | Text nat

record userstats =
  sessionCount :: nat
  watchTime :: int
  userLocation :: "location option"

record 'u stats =
  totalSessions :: nat
  totalWatchTime :: int
  uniqueUsers :: 'u
  uniqueCountries :: 'u
  byUser :: "string \<rightharpoonup> userstats"
  byCountry :: "string \<rightharpoonup> tally"
  byDay :: "int \<rightharpoonup> nat"
  byHour :: "nat list"

definition countOr0 :: "('k \<rightharpoonup> nat) \<Rightarrow> 'k \<Rightarrow> nat" where
  "countOr0 m k = (case m k of None \<Rightarrow> 0 | Some c \<Rightarrow> c)"

definition countryOf :: "session \<Rightarrow> string option" where
  "countryOf s =
     (case location s of
        None \<Rightarrow> None
      | Some l \<Rightarrow> if country l \<noteq> [] then Some (country l) else None)"

text \<open>\<open>obj[k] = (obj[k] || 0) + 1\<close> for a key that is no inherited name.\<close>

definition increment :: "('k \<rightharpoonup> nat) \<Rightarrow> 'k \<Rightarrow> ('k \<rightharpoonup> nat)" where
  "increment m k = m(k \<mapsto> countOr0 m k + 1)"

text \<open>
  \<open>obj[k] = (obj[k] || 0) + 1\<close> for a string key. An own number is incremented and an
  own string gets another \<open>1\<close> appended. Without an own property, an inherited name
  reads as the inherited function, to which \<open>+ 1\<close> appends a \<open>1\<close>; the assignment
  stores that string, except for \<open>__proto__\<close>, whose setter ignores a string. Any other
  key starts at 1.
\<close>

definition incrementNamed :: "(string \<rightharpoonup> tally) \<Rightarrow> string \<Rightarrow> (string \<rightharpoonup> tally)" where
  "incrementNamed m k =
     (case m k of
        Some (Count c) \<Rightarrow> m(k \<mapsto> Count (c + 1))
      | Some (Text j) \<Rightarrow> m(k \<mapsto> Text (j + 1))
      | None \<Rightarrow>
          if inheritedName k then (if k = ''__proto__'' then m else m(k \<mapsto> Text 1))
          else m(k \<mapsto> Count 1))"

text \<open>
  The per-user record. \<open>if (!stats.byUser[u])\<close> creates it, with the session's
  location, when \<open>u\<close> has no own record and is no inherited name; then
  \<open>sessions++\<close> and \<open>watchTime += session.watchedDuration\<close> update the value that
  \<open>stats.byUser[u]\<close> reads. For an inherited name without own record that value is the
  inherited object, which is not part of the statistics: no record is kept.
\<close>

definition countSession :: "session \<Rightarrow> (string \<rightharpoonup> userstats) \<Rightarrow> (string \<rightharpoonup> userstats)" where
  "countSession s m =
     (let m1 = (if m (username s) = None \<and> \<not> inheritedName (username s)
                then m(username s \<mapsto>
                       \<lparr>sessionCount = 0, watchTime = 0, userLocation = location s\<rparr>)
                else m)
      in case m1 (username s) of
           None \<Rightarrow> m1
         | Some u \<Rightarrow> m1(username s \<mapsto> u\<lparr>sessionCount := sessionCount u + 1,
                                           watchTime := watchTime u + watchedDuration s\<rparr>))"

definition statsStep :: "env \<Rightarrow> session \<Rightarrow> string set stats \<Rightarrow> string set stats" where
  "statsStep e s st =
     (let st1 = st\<lparr>totalWatchTime := totalWatchTime st + watchedDuration s\<rparr>;
          st2 = st1\<lparr>uniqueUsers := insert (username s) (uniqueUsers st1)\<rparr>;
          st3 = (case countryOf s of
                   None \<Rightarrow> st2
                 | Some c \<Rightarrow>
                     st2\<lparr>uniqueCountries := insert c (uniqueCountries st2),
                         byCountry := incrementNamed (byCountry st2) c\<rparr>);
          st4 = st3\<lparr>byUser := countSession s (byUser st3)\<rparr>;
          day = toLocaleDateString e (startTime s);
          st5 = st4\<lparr>byDay := increment (byDay st4) day\<rparr>;
          hour = getHours e (startTime s)
      in st5\<lparr>byHour := (byHour st5)[hour := byHour st5 ! hour + 1]\<rparr>)"

definition initialStats :: "session list \<Rightarrow> string set stats" where
  "initialStats history =
     \<lparr>totalSessions = length history, totalWatchTime = 0, uniqueUsers = {},
      uniqueCountries = {}, byUser = Map.empty, byCountry = Map.empty, byDay = Map.empty,
      byHour = replicate 24 0\<rparr>"

definition getHistoryStats :: "env \<Rightarrow> session list \<Rightarrow> nat stats" where
  "getHistoryStats e history =
     (let st = fold (statsStep e) history (initialStats history)
      in \<lparr>totalSessions = totalSessions st, totalWatchTime = totalWatchTime st,
          uniqueUsers = card (uniqueUsers st), uniqueCountries = card (uniqueCountries st),
          byUser = byUser st, byCountry = byCountry st, byDay = byDay st,
          byHour = byHour st\<rparr>)"

subsection \<open>app.js: TautulliMapApp\<close>

datatype mode = Live | History

text \<open>
  What the \<open>playback-time\<close> element shows: the formatted instant of a frame (an
  \<open>undefined\<close> instant formats as an invalid date), or the overview line
  \<open>N sessions, U utilisateurs, L lieux\<close>.
\<close>

datatype display = Blank | FrameTime "int option" | Overview nat nat nat

text \<open>The three counters of the info panel, in live mode and in history mode.\<close>

datatype panel = NoPanel | LivePanel nat int | HistoryPanel nat int nat

text \<open>
  \<open>timer\<close> tells whether \<open>historyPlayback.timer\<close> holds an interval. \<open>timeline\<close> is
  absent until \<open>createHistoryTimeline\<close> has run; an entry of a timeline is an instant
  or \<open>undefined\<close>.
\<close>

record playback =
  isPlaying :: bool
  currentIndex :: int
  timer :: bool
  speed :: int
  timeline :: "int option list option"

record app =
  api :: apistate
  mapManager :: mapManager
  isConnected :: bool
  lastUpdate :: "int option"
  currentMode :: mode
  historyData :: "session list"
  historyStats :: "nat stats option"
  historyPlayback :: playback
  playbackTime :: display
  sliderValue :: int
  sliderMax :: int
  infoPanel :: panel

text \<open>\<open>Set.add\<close> keeps the first occurrence, in insertion order.\<close>

definition setAdd :: "'a \<Rightarrow> 'a list \<Rightarrow> 'a list" where
  "setAdd x xs = (if x \<in> set xs then xs else xs @ [x])"

definition collectTimestamps :: "session list \<Rightarrow> int list" where
  "collectTimestamps history =
     fold (\<lambda>s ts. setAdd (stopTime s) (setAdd (startTime s) ts)) history []"

definition hourMs :: int where
  "hourMs = 3600000"

text \<open>The inner \<open>while (currentTime < timeline[i + 1])\<close> loop.\<close>

function hourly :: "int \<Rightarrow> int \<Rightarrow> int list" where
  "hourly currentTime nxt =
     (if currentTime < nxt then currentTime # hourly (currentTime + hourMs) nxt else [])"
  by pat_completeness auto
termination
  by (relation "measure (\<lambda>(c, n). nat (n - c))") (auto simp: hourMs_def)

text \<open>The outer \<open>for (let i = 0; i < timeline.length - 1; i++)\<close> loop.\<close>

function enhance :: "int list \<Rightarrow> nat \<Rightarrow> int option list \<Rightarrow> int option list" where
  "enhance tline i acc =
     (if int i < int (length tline) - 1 then
        (let acc1 = acc @ [Some (tline ! i)];
             diff = tline ! (i + 1) - tline ! i;
             acc2 = (if diff > hourMs
                     then acc1 @ map Some (hourly (tline ! i + hourMs) (tline ! (i + 1)))
                     else acc1)
         in enhance tline (i + 1) acc2)
      else acc)"
  by pat_completeness auto
termination
  by (relation "measure (\<lambda>(tline, i, acc). length tline - i)") auto

text \<open>\<open>xs[i]\<close> in JavaScript: \<open>undefined\<close> outside the array.\<close>

definition jsIndex :: "'a list \<Rightarrow> int \<Rightarrow> 'a option" where
  "jsIndex xs i = (if 0 \<le> i \<and> i < int (length xs) then Some (xs ! nat i) else None)"

text \<open>
  \<open>createHistoryTimeline\<close>: the distinct start and stop instants, sorted, with hourly
  instants inside every gap longer than an hour, and then
  \<open>enhancedTimeline.push(timeline[timeline.length - 1])\<close>.
\<close>

definition createHistoryTimeline :: "session list \<Rightarrow> int option list" where
  "createHistoryTimeline history =
     (let tline = sort (collectTimestamps history)
      in enhance tline 0 [] @ [jsIndex tline (int (length tline) - 1)])"

text \<open>
  The filter of \<open>showHistoryFrame\<close>:
  \<open>session.startTime <= currentTime && session.stopTime >= currentTime\<close>. Both
  comparisons are false when \<open>currentTime\<close> is \<open>undefined\<close>.
\<close>

definition activeAt :: "int option \<Rightarrow> session \<Rightarrow> bool" where
  "activeAt currentTime s =
     (case currentTime of
        None \<Rightarrow> False
      | Some t \<Rightarrow> startTime s \<le> t \<and> stopTime s \<ge> t)"

definition activeSessions :: "session list \<Rightarrow> int option \<Rightarrow> session list" where
  "activeSessions history currentTime = filter (activeAt currentTime) history"

text \<open>
  \<open>showAllHistorySessions\<close>. An entry of a location group is a session (with its
  location replaced by the server's when it had none), its index in \<open>historyData\<close> and
  the \<open>noLocation\<close> flag. \<open>sessionsByLocation\<close> is a \<open>Map\<close> in insertion order.
\<close>

type_synonym entry = "session \<times> nat \<times> bool"

definition hasValidLocation :: "session \<Rightarrow> bool" where
  "hasValidLocation s =
     (case location s of None \<Rightarrow> False | Some l \<Rightarrow> lat l \<noteq> 0 \<and> lon l \<noteq> 0)"

definition pushTo :: "real \<times> real \<Rightarrow> entry \<Rightarrow> ((real \<times> real) \<times> entry list) list
    \<Rightarrow> ((real \<times> real) \<times> entry list) list" where
  "pushTo k x groups =
     (case map_of groups k of
        None \<Rightarrow> groups @ [(k, [x])]
      | Some xs \<Rightarrow> AList.update k (xs @ [x]) groups)"

definition groupByLocation :: "config \<Rightarrow> session list \<Rightarrow> ((real \<times> real) \<times> entry list) list" where
  "groupByLocation cfg history =
     (let indexed = zip history [0..<length history];
          located = filter (\<lambda>(s, i). hasValidLocation s) indexed;
          sessionsWithoutLocation = filter (\<lambda>(s, i). \<not> hasValidLocation s) indexed;
          sessionsByLocation =
            fold (\<lambda>(s, i). pushTo (locKey (the (location s))) (s, i, False)) located [];
          serverKey = (serverLat cfg, serverLon cfg);
          serverLocation = \<lparr>lat = serverLat cfg, lon = serverLon cfg,
                            city = ''Server Location'', region = None,
                            country = ''Unknown'', isp = None\<rparr>
      in fold (\<lambda>(s, i). pushTo serverKey (s\<lparr>location := Some serverLocation\<rparr>, i, True))
           sessionsWithoutLocation sessionsByLocation)"

definition addHistoryMarker :: "config \<Rightarrow> nat \<Rightarrow> entry \<Rightarrow> nat \<Rightarrow> mapManager \<Rightarrow> mapManager" where
  "addHistoryMarker cfg groupSize x locIndex mm =
     (case x of (s, originalIndex, noLocation) \<Rightarrow>
        (let off = calculateOffset locIndex groupSize;
             offsetMultiplier = (if noLocation then 1.5 else 0.5);
             loc = the (location s);
             position = \<lparr>lat = lat loc + lat off * offsetMultiplier,
                         lon = lon loc + lon off * offsetMultiplier\<rparr>;
             historicalStream =
               (stream.truncate s)\<lparr>sessionKey :=
                  Str ''hist-'' # sessionKey s @ [Str ''-'', Num (int originalIndex)]\<rparr>;
             key = sessionKey historicalStream;
             pl = \<lparr>latLngs = (serverPos cfg, position),
                   color = getColorForBandwidth (bandwidth (strm s)),
                   dashArray = (if noLocation then Some ''5, 10'' else None)\<rparr>
         in mm\<lparr>markers := AList.update key (createUserMarker position historicalStream)
                              (markers mm),
               connections := AList.update key pl (connections mm)\<rparr>))"

definition addGroupMarkers :: "config \<Rightarrow> entry list \<Rightarrow> mapManager \<Rightarrow> mapManager" where
  "addGroupMarkers cfg xs mm =
     fold (\<lambda>locIndex. addHistoryMarker cfg (length xs) (xs ! locIndex) locIndex)
       [0..<length xs] mm"

definition showAllHistorySessions :: "config \<Rightarrow> app \<Rightarrow> app" where
  "showAllHistorySessions cfg a =
     (let mm0 = updateStreams cfg ([] :: session list) (mapManager a);
          sessionsByLocation = groupByLocation cfg (historyData a);
          mm1 = fold (\<lambda>(k, xs). addGroupMarkers cfg xs) sessionsByLocation mm0
      in a\<lparr>mapManager := mm1,
           playbackTime := Overview (length (historyData a))
                             (card (set (map username (historyData a))))
                             (length sessionsByLocation)\<rparr>)"

text \<open>
  \<open>showHistoryFrame(index)\<close>: frame 0 in history mode is the overview of all
  sessions; an index inside the timeline shows the sessions active at that instant and
  stores the index; any other index does nothing.
\<close>

definition showHistoryFrame :: "config \<Rightarrow> int \<Rightarrow> app \<Rightarrow> app" where
  "showHistoryFrame cfg index a =
     (if currentMode a = History \<and> index = 0 then showAllHistorySessions cfg a
      else case timeline (historyPlayback a) of
        None \<Rightarrow> a
      | Some tline \<Rightarrow>
          if index \<ge> 0 \<and> index < int (length tline) then
            (let currentTime = tline ! nat index;
                 active = activeSessions (historyData a) currentTime
             in a\<lparr>mapManager := updateStreams cfg active (mapManager a),
                  playbackTime := FrameTime currentTime,
                  sliderValue := index,
                  historyPlayback := (historyPlayback a)\<lparr>currentIndex := index\<rparr>\<rparr>)
          else a)"

definition initPlayback :: "config \<Rightarrow> app \<Rightarrow> app" where
  "initPlayback cfg a =
     (let tline = createHistoryTimeline (historyData a);
          a1 = a\<lparr>historyPlayback :=
                   (historyPlayback a)\<lparr>currentIndex := 0, isPlaying := False,
                                        timeline := Some tline\<rparr>,
                 sliderMax := int (length tline) - 1,
                 sliderValue := 0\<rparr>
      in showHistoryFrame cfg 0 a1)"

text \<open>
  \<open>togglePlayback\<close>: pause clears the interval, play registers one. The interval's
  callback is \<open>advance\<close>; the browser calls it once per \<open>speed\<close> milliseconds while
  the interval is registered.
\<close>

definition togglePlayback :: "app \<Rightarrow> app" where
  "togglePlayback a =
     (if isPlaying (historyPlayback a)
      then a\<lparr>historyPlayback := (historyPlayback a)\<lparr>isPlaying := False, timer := False\<rparr>\<rparr>
      else a\<lparr>historyPlayback := (historyPlayback a)\<lparr>isPlaying := True, timer := True\<rparr>\<rparr>)"

definition advance :: "config \<Rightarrow> app \<Rightarrow> app" where
  "advance cfg a =
     (let a1 = a\<lparr>historyPlayback :=
                   (historyPlayback a)\<lparr>currentIndex := currentIndex (historyPlayback a) + 1\<rparr>\<rparr>
      in if currentIndex (historyPlayback a1) \<ge> int (length (historyData a1)) then
           (let a2 = togglePlayback a1
            in a2\<lparr>historyPlayback := (historyPlayback a2)\<lparr>currentIndex := 0\<rparr>\<rparr>)
         else showHistoryFrame cfg (currentIndex (historyPlayback a1)) a1)"

definition stopPlayback :: "app \<Rightarrow> app" where
  "stopPlayback a =
     (let a1 = (if isPlaying (historyPlayback a) then togglePlayback a else a)
      in a1\<lparr>historyPlayback := (historyPlayback a1)\<lparr>currentIndex := 0\<rparr>\<rparr>)"

definition seekPlayback :: "config \<Rightarrow> int \<Rightarrow> app \<Rightarrow> app" where
  "seekPlayback cfg index a = showHistoryFrame cfg index a"

text \<open>
  \<open>loadHistoryData\<close>, with the number of days already computed from the date inputs.
\<close>

definition loadHistoryData :: "server \<Rightarrow> config \<Rightarrow> env \<Rightarrow> int \<Rightarrow> app \<Rightarrow> app" where
  "loadHistoryData srv cfg e days a =
     (let (history, api') = getHistoryDays srv cfg e days (api a);
          st = getHistoryStats e history;
          a1 = a\<lparr>api := api', historyData := history, historyStats := Some st,
                 infoPanel := HistoryPanel (totalSessions st) (totalWatchTime st)
                                (uniqueUsers st)\<rparr>
      in initPlayback cfg a1)"

text \<open>
  \<open>refresh\<close>, one poll cycle. \<open>getActiveStreams\<close> catches every error itself and
  returns \<open>[]\<close>, so nothing inside the \<open>try\<close> block of \<open>refresh\<close> throws and its
  \<open>catch\<close> block is never entered.
\<close>

definition refresh :: "server \<Rightarrow> config \<Rightarrow> env \<Rightarrow> app \<Rightarrow> app" where
  "refresh srv cfg e a =
     (if currentMode a \<noteq> Live then a
      else (let (streams, api') = getActiveStreams srv cfg e (api a)
            in a\<lparr>api := api',
                 isConnected := True,
                 mapManager := updateStreams cfg streams (mapManager a),
                 infoPanel := LivePanel (length streams)
                                (sum_list (map (\<lambda>s. bandwidth (strm s)) streams)),
                 lastUpdate := Some (now e)\<rparr>))"

declare hourly.simps [simp del] enhance.simps [simp del]

text \<open>The constructor of \<open>TautulliMapApp\<close>, with a fresh API object and an empty map.\<close>

definition newApp :: app where
  "newApp =
     \<lparr>api = \<lparr>geoip = Map.empty, drawn = 0\<rparr>,
      mapManager = \<lparr>markers = [], connections = [], hasInitiallyFitted = False\<rparr>,
      isConnected = False, lastUpdate = None, currentMode = Live, historyData = [],
      historyStats = None,
      historyPlayback = \<lparr>isPlaying = False, currentIndex = 0, timer = False, speed = 1000,
                          timeline = None\<rparr>,
      playbackTime = Blank, sliderValue = 0, sliderMax = 0, infoPanel = NoPanel\<rparr>"

subsection \<open>The Tautulli server\<close>

text \<open>
  Modelled from the spec: the external session source, which is not part of the
  repository. Its \<open>get_history\<close> command, asked for \<open>length\<close> records ordered by
  \<open>date\<close> descending, answers with the \<open>length\<close> most recent records of its
  database, newest first, and the size of the database as \<open>recordsTotal\<close>.
\<close>

definition mostRecent :: "nat \<Rightarrow> raw list \<Rightarrow> raw list" where
  "mostRecent n db = take n (sort_key (\<lambda>r. - date r) db)"

definition tautulliHistory :: "raw list \<Rightarrow> history_params \<Rightarrow> error + history_response" where
  "tautulliHistory db p =
     (if order_column p = ''date'' \<and> order_dir p = ''desc''
      then Inr \<lparr>h_data = Some (mostRecent (p_length p) db), recordsTotal = Some (length db)\<rparr>
      else Inr \<lparr>h_data = Some (take (p_length p) db), recordsTotal = Some (length db)\<rparr>)"

text \<open>
  A server with the given live sessions and history database whose GeoIP lookup
  knows no address, and a server that cannot be reached.
\<close>

definition tautulli :: "raw list \<Rightarrow> raw list \<Rightarrow> server" where
  "tautulli live db =
     \<lparr>get_activity = Inr (Some \<lparr>sessions = Some live\<rparr>),
      get_geoip_lookup = (\<lambda>ip. Inr None),
      get_history = tautulliHistory db\<rparr>"

definition unreachable :: server where
  "unreachable =
     \<lparr>get_activity = Inl NetworkError,
      get_geoip_lookup = (\<lambda>ip. Inl NetworkError),
      get_history = (\<lambda>p. Inl NetworkError)\<rparr>"

subsection \<open>Example inputs\<close>

text \<open>A raw record with every optional field missing.\<close>

definition blankRaw :: raw where
  "blankRaw =
     \<lparr>session_key = None, reference_id = None, r_id = None, user = None, r_username = None,
      friendly_name = None, user_id = None, ip_address = None, r_title = None,
      full_title = None, media_type = None, r_year = None, grandparent_title = None,
      parent_title = None, r_player = None, r_platform = None, quality_profile = None,
      transcode_decision = None, r_bandwidth = None, date = 0, started = None,
      stopped = None, r_duration = None, paused_duration = None\<rparr>"

text \<open>
  The default configuration (the server in Paris); a browser in UTC at
  \<open>1700000000000\<close> ms whose \<open>Math.random()\<close> returns \<open>0.5\<close> each time.
\<close>

definition exConfig :: config where
  "exConfig = \<lparr>apiKey = ''key'', serverLat = 48.856614, serverLon = 2.352222,
               refreshInterval = 30\<rparr>"

definition exEnv :: env where
  "exEnv = \<lparr>now = 1700000000000, daysAgo = (\<lambda>d. 1700000000000 - d * 86400000),
            tz = (\<lambda>t. 0), random = (\<lambda>k. 1 / 2)\<rparr>"

text \<open>
  A history record of user \<open>u\<close> from the local network, started and stopped at the
  given Unix seconds.
\<close>

definition histRaw :: "string \<Rightarrow> int \<Rightarrow> int \<Rightarrow> raw" where
  "histRaw u a b =
     blankRaw\<lparr>user := Some u, ip_address := Some ''192.168.1.10'', date := a,
              started := Some a, stopped := Some b, r_duration := Some (b - a)\<rparr>"

text \<open>
  Three sessions that start and stop together, and a single session of two hours
  (Unix seconds, inside the last ten days of \<open>exEnv\<close>).
\<close>

definition threeTogether :: "raw list" where
  "threeTogether =
     [histRaw ''ann'' 1699990000 1699991000, histRaw ''bob'' 1699990000 1699991000,
      histRaw ''cat'' 1699990000 1699991000]"

definition oneLong :: "raw list" where
  "oneLong = [histRaw ''ann'' 1699990000 1699997200]"

text \<open>The history view right after its data has loaded.\<close>

definition historyView :: "raw list \<Rightarrow> app" where
  "historyView db =
     loadHistoryData (tautulli [] db) exConfig exEnv 10 (newApp\<lparr>currentMode := History\<rparr>)"

definition exHistory :: "raw list \<Rightarrow> session list" where
  "exHistory db = fst (getHistoryDays (tautulli [] db) exConfig exEnv 10 (api newApp))"

text \<open>A live session from the local network.\<close>

definition liveRaw :: raw where
  "liveRaw =
     blankRaw\<lparr>session_key := Some ''7'', r_username := Some ''ann'',
              ip_address := Some ''192.168.1.10'', r_bandwidth := Some 4000,
              started := Some 1699999000\<rparr>"

text \<open>
  A session with ten seconds of play and thirty of pause, and two sessions of one user
  from two addresses.
\<close>

definition pausedRaw :: raw where
  "pausedRaw =
     blankRaw\<lparr>user := Some ''ann'', ip_address := Some ''192.168.1.10'', date := 1699990000,
              started := Some 1699990000, stopped := Some 1699990040,
              r_duration := Some 10, paused_duration := Some 30\<rparr>"

definition twoPlaces :: "raw list" where
  "twoPlaces =
     [histRaw ''ann'' 1699990000 1699991000,
      (histRaw ''ann'' 1699995000 1699996000)\<lparr>ip_address := Some ''8.8.8.8''\<rparr>]"


text \<open>
  Two sessions meeting at one instant: the first stops when the second, which has no
  extent, starts and stops.
\<close>

definition meeting :: "raw list" where
  "meeting =
     [(histRaw ''ann'' 1699990000 1699991000)\<lparr>reference_id := Some 11\<rparr>,
      (histRaw ''bob'' 1699991000 1699991000)\<lparr>reference_id := Some 12\<rparr>]"

subsection \<open>Notions used to state the properties\<close>

text \<open>The countries of the sessions that have one, with repetitions.\<close>

definition countries :: "session list \<Rightarrow> string list" where
  "countries history = map (the \<circ> countryOf) (filter (\<lambda>s. countryOf s \<noteq> None) history)"

text \<open>
  The user name \<open>getHistoryDays\<close> gives the session of a record, and the records of the
  server's answer that fall into the requested window: the ones the batch is built
  from.
\<close>

definition recordUser :: "raw \<Rightarrow> string" where
  "recordUser r =
     orS (orElseS (orElseS (user r) (r_username r)) (friendly_name r)) ''Unknown User''"

definition windowRecords :: "server \<Rightarrow> env \<Rightarrow> int \<Rightarrow> raw list" where
  "windowRecords srv e days =
     (case get_history srv historyDaysParams of
        Inl err \<Rightarrow> []
      | Inr data \<Rightarrow>
          filter (inRange (daysAgo e days) (now e))
            (case h_data data of None \<Rightarrow> [] | Some h \<Rightarrow> h))"

section \<open>Auxiliary facts\<close>

lemmas history_eval =
  getHistoryDays_def tautulli_def tautulliHistory_def historyDaysParams_def mostRecent_def
  histRaw_def blankRaw_def inRange_def exEnv_def processSession_def getLocationFromIP_def
  getGeoIP_def isLocalIP_def startsWith_def historyKeyId_def truthyN_def truthyS_def
  orS_def orN_def orElseS_def Let_def randomOffset_def exConfig_def newApp_def

lemmas timeline_eval =
  createHistoryTimeline_def collectTimestamps_def setAdd_def jsIndex_def enhance.simps
  hourly.simps hourMs_def

subsection \<open>The timeline\<close>

lemma set_setAdd: "set (setAdd x xs) = insert x (set xs)"
  by (auto simp: setAdd_def)

lemma set_fold_timestamps:
  "set (fold (\<lambda>s ts. setAdd (stopTime s) (setAdd (startTime s) ts)) history acc)
     = set acc \<union> startTime ` set history \<union> stopTime ` set history"
  by (induction history arbitrary: acc) (auto simp: set_setAdd)

lemma set_collectTimestamps:
  "set (collectTimestamps history) = startTime ` set history \<union> stopTime ` set history"
  by (simp add: collectTimestamps_def set_fold_timestamps)

lemma collectTimestamps_nonempty:
  assumes "history \<noteq> []"
  shows "collectTimestamps history \<noteq> []"
proof
  assume e: "collectTimestamps history = []"
  from assms obtain s where "s \<in> set history" by (cases history) auto
  then have "startTime s \<in> set (collectTimestamps history)"
    by (simp add: set_collectTimestamps)
  with e show False by simp
qed

lemma enhance_defined:
  "None \<notin> set acc \<Longrightarrow> None \<notin> set (enhance tline i acc)"
proof (induction tline i acc rule: enhance.induct)
  case (1 tline i acc)
  show ?case
  proof (cases "int i < int (length tline) - 1")
    case True
    have "None \<notin> set (enhance tline (i + 1)
            (if tline ! (i + 1) - tline ! i > hourMs
             then (acc @ [Some (tline ! i)])
                    @ map Some (hourly (tline ! i + hourMs) (tline ! (i + 1)))
             else acc @ [Some (tline ! i)]))"
      using True "1.prems" by (intro "1.IH") (auto simp: Let_def)
    then show ?thesis
      using True by (simp add: enhance.simps [of tline i acc] Let_def)
  next
    case False
    then show ?thesis
      using "1.prems" by (simp add: enhance.simps [of tline i acc])
  qed
qed

lemma jsIndex_last: "xs \<noteq> [] \<Longrightarrow> jsIndex xs (int (length xs) - 1) = Some (last xs)"
  by (cases xs rule: rev_cases) (auto simp: jsIndex_def nth_append)

lemma createHistoryTimeline_defined:
  assumes "history \<noteq> []"
  shows "None \<notin> set (createHistoryTimeline history)"
proof -
  have "sort (collectTimestamps history) \<noteq> []"
    using collectTimestamps_nonempty [OF assms]
    by (cases "collectTimestamps history") (auto dest!: arg_cong [where f = length])
  from jsIndex_last [OF this] show ?thesis
    using enhance_defined [of "[]"]
    by (simp add: createHistoryTimeline_def Let_def)
qed

lemma activeSessions_Some:
  "activeSessions history (Some t)
     = filter (\<lambda>s. startTime s \<le> t \<and> t \<le> stopTime s) history"
  by (simp add: activeSessions_def activeAt_def [abs_def] conj_commute)

subsection \<open>What the playback operations leave alone\<close>

lemma showAllHistorySessions_frame [simp]:
  "historyPlayback (showAllHistorySessions cfg a) = historyPlayback a"
  "historyData (showAllHistorySessions cfg a) = historyData a"
  "currentMode (showAllHistorySessions cfg a) = currentMode a"
  by (simp_all add: showAllHistorySessions_def Let_def)

lemma showHistoryFrame_frame [simp]:
  "historyData (showHistoryFrame cfg i a) = historyData a"
  "currentMode (showHistoryFrame cfg i a) = currentMode a"
  "isPlaying (historyPlayback (showHistoryFrame cfg i a)) = isPlaying (historyPlayback a)"
  "timer (historyPlayback (showHistoryFrame cfg i a)) = timer (historyPlayback a)"
  "timeline (historyPlayback (showHistoryFrame cfg i a)) = timeline (historyPlayback a)"
  by (simp_all add: showHistoryFrame_def Let_def split: option.splits)

lemma showHistoryFrame_index:
  "currentIndex (historyPlayback (showHistoryFrame cfg i a)) =
     (if currentMode a = History \<and> i = 0 then currentIndex (historyPlayback a)
      else case timeline (historyPlayback a) of
             None \<Rightarrow> currentIndex (historyPlayback a)
           | Some tline \<Rightarrow> if 0 \<le> i \<and> i < int (length tline) then i
                           else currentIndex (historyPlayback a))"
  by (simp add: showHistoryFrame_def Let_def split: option.splits)

lemma loadHistoryData_frame:
  "historyData (loadHistoryData srv cfg e d a) = fst (getHistoryDays srv cfg e d (api a))"
  "currentMode (loadHistoryData srv cfg e d a) = currentMode a"
  "timeline (historyPlayback (loadHistoryData srv cfg e d a)) =
     Some (createHistoryTimeline (fst (getHistoryDays srv cfg e d (api a))))"
  "isPlaying (historyPlayback (loadHistoryData srv cfg e d a)) = False"
  by (simp_all add: loadHistoryData_def initPlayback_def Let_def split: prod.splits)

lemma loadHistoryData_index:
  "currentMode a = History \<Longrightarrow>
     currentIndex (historyPlayback (loadHistoryData srv cfg e d a)) = 0"
  by (simp add: loadHistoryData_def initPlayback_def Let_def showHistoryFrame_index
      split: prod.splits)

lemma api_history_mode [simp]: "api (newApp\<lparr>currentMode := History\<rparr>) = api newApp"
  by (simp add: newApp_def)

subsection \<open>The example histories\<close>

lemma threeTogether_timeline:
  "createHistoryTimeline
     (exHistory threeTogether)
   = [Some 1699990000000, Some 1699991000000]"
  by (simp add: exHistory_def history_eval threeTogether_def timeline_eval)

lemma threeTogether_length:
  "length (exHistory threeTogether) = 3"
  by (simp add: exHistory_def history_eval threeTogether_def)

lemma oneLong_timeline:
  "createHistoryTimeline
     (exHistory oneLong)
   = [Some 1699990000000, Some 1699993600000, Some 1699997200000]"
  by (simp add: exHistory_def history_eval oneLong_def timeline_eval)

lemma oneLong_length:
  "length (exHistory oneLong) = 1"
  by (simp add: exHistory_def history_eval oneLong_def)

lemma historyView_facts:
  "currentMode (historyView db) = History"
  "historyData (historyView db) = exHistory db"
  "timeline (historyPlayback (historyView db)) = Some (createHistoryTimeline (exHistory db))"
  "isPlaying (historyPlayback (historyView db)) = False"
  "currentIndex (historyPlayback (historyView db)) = 0"
  by (simp_all add: historyView_def loadHistoryData_frame loadHistoryData_index exHistory_def)

lemma showHistoryFrame_timeline:
  assumes "timeline (historyPlayback a) = Some tline"
    and "\<not> (currentMode a = History \<and> i = 0)"
  shows "showHistoryFrame cfg i a =
     (if 0 \<le> i \<and> i < int (length tline)
      then a\<lparr>mapManager := updateStreams cfg (activeSessions (historyData a) (tline ! nat i))
                              (mapManager a),
             playbackTime := FrameTime (tline ! nat i),
             sliderValue := i,
             historyPlayback := (historyPlayback a)\<lparr>currentIndex := i\<rparr>\<rparr>
      else a)"
  using assms by (auto simp add: showHistoryFrame_def Let_def)

subsection \<open>A poll cycle without an answer\<close>

lemma getActiveStreams_unreachable:
  "get_activity srv = Inl err \<Longrightarrow> getActiveStreams srv cfg e st = ([], st)"
  by (simp add: getActiveStreams_def getActivity_def)

lemma removeStream_sel:
  "markers (removeStream k mm) = filter (\<lambda>p. fst p \<noteq> k) (markers mm)"
  "connections (removeStream k mm) = filter (\<lambda>p. fst p \<noteq> k) (connections mm)"
  "hasInitiallyFitted (removeStream k mm) = hasInitiallyFitted mm"
  by (auto simp add: removeStream_def AList.delete_eq case_prod_unfold intro: filter_cong)

lemma fold_removeStream:
  "markers (fold removeStream ks mm) = filter (\<lambda>p. fst p \<notin> set ks) (markers mm)
   \<and> connections (fold removeStream ks mm)
       = filter (\<lambda>p. fst p \<notin> set ks) (connections mm)
   \<and> hasInitiallyFitted (fold removeStream ks mm) = hasInitiallyFitted mm"
proof (induction ks arbitrary: mm)
  case Nil
  then show ?case by simp
next
  case (Cons k ks)
  show ?case
    by (simp add: Cons removeStream_sel conj_commute)
qed

lemma updateStreams_Nil:
  "updateStreams cfg [] mm = fold removeStream (map fst (markers mm)) mm"
  by (simp add: updateStreams_def)

lemma updateStreams_Nil_markers: "markers (updateStreams cfg [] mm) = []"
  by (simp add: updateStreams_Nil fold_removeStream filter_empty_conv)

text \<open>
  Whenever the activity request fails in live mode, \<open>refresh\<close> removes every marker
  and reports the connection as established.
\<close>

lemma refresh_unreachable:
  assumes "get_activity srv = Inl err" and "currentMode a = Live"
  shows "markers (mapManager (refresh srv cfg e a)) = []"
    and "isConnected (refresh srv cfg e a)"
  using assms
  by (simp_all add: refresh_def getActiveStreams_unreachable updateStreams_Nil_markers)

lemmas live_eval =
  refresh_def newApp_def getActiveStreams_def getActivity_def tautulli_def liveRaw_def
  blankRaw_def liveStream_def getGeoIP_def isLocalIP_def startsWith_def defaultLocation_def
  truthyS_def truthyN_def orS_def orN_def orElseS_def exEnv_def exConfig_def
  updateStreams_def placeStream_def sameLocStreams_def locKey_def calculateOffset_def
  addOrUpdateStream_def createUserMarker_def createConnection_def markerBandwidth_def
  getColorForBandwidth_def serverPos_def stream.defs Let_def

subsection \<open>The markers after an update\<close>

lemma markers_updateConnection [simp]:
  "markers (updateConnection cfg key pos mm) = markers mm"
  by (simp add: updateConnection_def Let_def split: option.splits)

lemma markers_createConnection [simp]:
  "markers (createConnection cfg key pos mm) = markers mm"
  by (simp add: createConnection_def Let_def)

lemma addOrUpdateStream_keys:
  "fst ` set (markers (addOrUpdateStream cfg s off mm))
     = (case location s of
          None \<Rightarrow> fst ` set (markers mm)
        | Some l \<Rightarrow> insert (sessionKey s) (fst ` set (markers mm)))"
  by (simp add: addOrUpdateStream_def Let_def dom_update split: option.splits)

lemma placeStream_keys:
  "fst ` set (markers (placeStream cfg streams p mm))
     = (case location (streams ! p) of
          None \<Rightarrow> fst ` set (markers mm)
        | Some l \<Rightarrow> insert (sessionKey (streams ! p)) (fst ` set (markers mm)))"
  by (simp add: placeStream_def Let_def addOrUpdateStream_keys split: option.splits)

lemma fold_placeStream_keys:
  "fst ` set (markers (fold (placeStream cfg streams) ps mm))
     = fst ` set (markers mm)
       \<union> (\<lambda>p. sessionKey (streams ! p)) ` {p \<in> set ps. location (streams ! p) \<noteq> None}"
proof (induction ps arbitrary: mm)
  case Nil
  then show ?case by simp
next
  case (Cons p ps)
  show ?case
  proof (cases "location (streams ! p)")
    case None
    then have "{q \<in> set (p # ps). location (streams ! q) \<noteq> None}
                 = {q \<in> set ps. location (streams ! q) \<noteq> None}"
      by auto
    with None show ?thesis
      by (simp add: Cons placeStream_keys)
  next
    case (Some l)
    then have "{q \<in> set (p # ps). location (streams ! q) \<noteq> None}
                 = insert p {q \<in> set ps. location (streams ! q) \<noteq> None}"
      by auto
    with Some show ?thesis
      by (simp add: Cons placeStream_keys)
  qed
qed

lemma updateStreams_keys:
  assumes "\<forall>s \<in> set streams. location s \<noteq> None"
  shows "fst ` set (markers (updateStreams cfg streams mm)) = sessionKey ` set streams"
proof -
  have all: "{p \<in> set [0..<length streams]. location (streams ! p) \<noteq> None}
               = {0..<length streams}"
    using assms by auto
  have "(\<lambda>p. sessionKey (streams ! p)) ` {0..<length streams}
          = sessionKey ` ((!) streams ` {0..<length streams})"
    by (simp add: image_image)
  also have "(!) streams ` {0..<length streams} = set streams"
    by (simp add: nth_image [of "length streams" streams, simplified])
  finally have placed: "(\<lambda>p. sessionKey (streams ! p))
                          ` {p \<in> set [0..<length streams]. location (streams ! p) \<noteq> None}
                        = sessionKey ` set streams"
    by (simp only: all)
  have kept: "fst ` set (markers (fold removeStream
                 (filter (\<lambda>key. key \<notin> sessionKey ` set streams) (map fst (markers mm))) mm))
                \<subseteq> sessionKey ` set streams"
    by (auto simp add: fold_removeStream)
  have "markers (updateStreams cfg streams mm)
          = markers (fold (placeStream cfg streams) [0..<length streams]
              (fold removeStream
                 (filter (\<lambda>key. key \<notin> sessionKey ` set streams) (map fst (markers mm))) mm))"
    by (simp add: updateStreams_def Let_def)
  then have "fst ` set (markers (updateStreams cfg streams mm))
          = fst ` set (markers (fold removeStream
                 (filter (\<lambda>key. key \<notin> sessionKey ` set streams) (map fst (markers mm))) mm))
            \<union> sessionKey ` set streams"
    by (simp only: fold_placeStream_keys placed)
  with kept show ?thesis by blast
qed

lemma markers_addHistoryMarker:
  "markers (addHistoryMarker cfg n (s, originalIndex, noLocation) locIndex mm)
     = AList.update (Str ''hist-'' # sessionKey s @ [Str ''-'', Num (int originalIndex)])
         (createUserMarker
            \<lparr>lat = lat (the (location s))
                     + lat (calculateOffset locIndex n) * (if noLocation then 1.5 else 0.5),
             lon = lon (the (location s))
                     + lon (calculateOffset locIndex n) * (if noLocation then 1.5 else 0.5)\<rparr>
            ((stream.truncate s)\<lparr>sessionKey :=
                Str ''hist-'' # sessionKey s @ [Str ''-'', Num (int originalIndex)]\<rparr>))
         (markers mm)"
  by (simp add: addHistoryMarker_def Let_def)

lemma meeting_history:
  "map (\<lambda>s. (username s, sessionKey s, startTime s, stopTime s)) (exHistory meeting)
     = [(''ann'', [Str ''hist-'', Num 11, Str ''-'', Num 1], 1699990000000, 1699991000000),
        (''bob'', [Str ''hist-'', Num 12, Str ''-'', Num 0], 1699991000000, 1699991000000)]"
  by (simp add: exHistory_def history_eval meeting_def)

lemma meeting_timeline:
  "createHistoryTimeline (exHistory meeting) = [Some 1699990000000, Some 1699991000000]"
  by (simp add: exHistory_def history_eval meeting_def timeline_eval)

subsection \<open>The history statistics in closed form\<close>

lemma statsStep_sel:
  "totalSessions (statsStep e s st) = totalSessions st"
  "totalWatchTime (statsStep e s st) = totalWatchTime st + watchedDuration s"
  "uniqueUsers (statsStep e s st) = insert (username s) (uniqueUsers st)"
  "uniqueCountries (statsStep e s st) = set_option (countryOf s) \<union> uniqueCountries st"
  "byCountry (statsStep e s st) = fold (\<lambda>c m. incrementNamed m c) (case countryOf s of None \<Rightarrow> [] | Some c \<Rightarrow> [c]) (byCountry st)"
  "byUser (statsStep e s st) = countSession s (byUser st)"
  "byDay (statsStep e s st) = increment (byDay st) (toLocaleDateString e (startTime s))"
  "byHour (statsStep e s st) = (byHour st)[getHours e (startTime s) := Suc (byHour st ! getHours e (startTime s))]"
  by (simp_all add: statsStep_def Let_def split: option.splits)

lemma fold_statsStep:
  "totalSessions (fold (statsStep e) h st) = totalSessions st"
  "totalWatchTime (fold (statsStep e) h st) = totalWatchTime st + sum_list (map watchedDuration h)"
  "uniqueUsers (fold (statsStep e) h st) = set (map username h) \<union> uniqueUsers st"
  "uniqueCountries (fold (statsStep e) h st) = set (countries h) \<union> uniqueCountries st"
  "byCountry (fold (statsStep e) h st) = fold (\<lambda>c m. incrementNamed m c) (countries h) (byCountry st)"
  "byUser (fold (statsStep e) h st) = fold countSession h (byUser st)"
  "byDay (fold (statsStep e) h st) = fold (\<lambda>d m. increment m d) (map (\<lambda>s. toLocaleDateString e (startTime s)) h) (byDay st)"
  "byHour (fold (statsStep e) h st) = fold (\<lambda>k xs. xs[k := Suc (xs ! k)]) (map (\<lambda>s. getHours e (startTime s)) h) (byHour st)"
  by (induction h arbitrary: st; simp add: statsStep_sel countries_def; (auto split: option.splits)?)+

lemma incrementNamed_apply:
  "incrementNamed m k x =
     (if x = k
      then (case m k of
              Some (Count c) \<Rightarrow> Some (Count (c + 1))
            | Some (Text j) \<Rightarrow> Some (Text (j + 1))
            | None \<Rightarrow> if inheritedName k
                      then (if k = ''__proto__'' then None else Some (Text 1))
                      else Some (Count 1))
      else m x)"
  by (simp add: incrementNamed_def split: option.splits tally.splits)

lemma incrementNamed_commute:
  "incrementNamed (incrementNamed m a) b = incrementNamed (incrementNamed m b) a"
proof (cases "a = b")
  case True
  then show ?thesis by simp
next
  case False
  show ?thesis
  proof (rule ext)
    fix x
    show "incrementNamed (incrementNamed m a) b x = incrementNamed (incrementNamed m b) a x"
      using False by (simp add: incrementNamed_apply)
  qed
qed

lemma fold_incrementNamed_perm:
  assumes "mset ks = mset ls"
  shows "fold (\<lambda>c m. incrementNamed m c) ks m = fold (\<lambda>c m. incrementNamed m c) ls m"
proof -
  have "fold (\<lambda>c m. incrementNamed m c) ks = fold (\<lambda>c m. incrementNamed m c) ls"
  proof (rule fold_multiset_equiv)
    fix x y
    show "(\<lambda>m. incrementNamed m x) \<circ> (\<lambda>m. incrementNamed m y)
            = (\<lambda>m. incrementNamed m y) \<circ> (\<lambda>m. incrementNamed m x)"
      by (rule ext) (simp add: incrementNamed_commute)
  next
    show "mset ks = mset ls" by (rule assms)
  qed
  then show ?thesis by simp
qed

lemma fold_countSession:
  "fold countSession h m u =
     (case filter (\<lambda>s. username s = u) h of
        [] \<Rightarrow> m u
      | s0 # rest \<Rightarrow>
          (case m u of
             None \<Rightarrow>
               if inheritedName u then None
               else Some \<lparr>sessionCount = length (s0 # rest),
                          watchTime = sum_list (map watchedDuration (s0 # rest)),
                          userLocation = location s0\<rparr>
           | Some us \<Rightarrow>
               Some (us\<lparr>sessionCount := sessionCount us + length (s0 # rest),
                        watchTime := watchTime us + sum_list (map watchedDuration (s0 # rest))\<rparr>)))"
proof (induction h arbitrary: m)
  case Nil
  then show ?case by simp
next
  case (Cons s h)
  have step: "fold countSession (s # h) m u = fold countSession h (countSession s m) u"
    by simp
  show ?case
    unfolding step Cons
    by (simp add: countSession_def Let_def split: list.splits option.splits)
qed

lemma fold_increment:
  "fold (\<lambda>k m. increment m k) ks m
     = (\<lambda>k. if k \<in> set ks then Some (countOr0 m k + count_list ks k) else m k)"
proof (induction ks arbitrary: m)
  case Nil
  then show ?case by simp
next
  case (Cons a ks)
  have "fold (\<lambda>k m. increment m k) (a # ks) m = fold (\<lambda>k m. increment m k) ks (increment m a)"
    by simp
  also have "\<dots> = (\<lambda>k. if k \<in> set ks
                        then Some (countOr0 (increment m a) k + count_list ks k)
                        else increment m a k)"
    by (rule Cons)
  also have "\<dots> = (\<lambda>k. if k \<in> set (a # ks)
                        then Some (countOr0 m k + count_list (a # ks) k) else m k)"
    by (rule ext) (simp add: increment_def countOr0_def)
  finally show ?case .
qed

lemma fold_hours:
  "fold (\<lambda>k xs. xs[k := Suc (xs ! k)]) ks xs
     = map (\<lambda>i. xs ! i + count_list ks i) [0..<length xs]"
proof (induction ks arbitrary: xs)
  case Nil
  then show ?case by (simp add: map_nth)
next
  case (Cons a ks)
  have "fold (\<lambda>k xs. xs[k := Suc (xs ! k)]) (a # ks) xs
          = fold (\<lambda>k xs. xs[k := Suc (xs ! k)]) ks (xs[a := Suc (xs ! a)])"
    by simp
  also have "\<dots> = map (\<lambda>i. (xs[a := Suc (xs ! a)]) ! i + count_list ks i)
                      [0..<length (xs[a := Suc (xs ! a)])]"
    by (rule Cons)
  also have "\<dots> = map (\<lambda>i. xs ! i + count_list (a # ks) i) [0..<length xs]"
    by (simp add: nth_list_update)
  finally show ?case .
qed

lemma fold_hours_zero:
  "fold (\<lambda>k xs. xs[k := Suc (xs ! k)]) ks (replicate n 0) = map (count_list ks) [0..<n]"
  by (simp add: fold_hours)

lemma countOr0_empty [simp]: "countOr0 Map.empty k = 0"
  by (simp add: countOr0_def)

lemma getHistoryDays_fst:
  "fst (getHistoryDays srv cfg e days st) =
     (case get_history srv historyDaysParams of
        Inl err \<Rightarrow> []
      | Inr data \<Rightarrow>
          sort_key startTime
            (fst (processHistory srv cfg e
                    (filter (inRange (daysAgo e days) (now e))
                       (case h_data data of None \<Rightarrow> [] | Some h \<Rightarrow> h)) 0 st)))"
  by (simp add: getHistoryDays_def Let_def split: sum.splits prod.splits)

lemma totalWatchTime_sum:
  "totalWatchTime (getHistoryStats e h) = sum_list (map watchedDuration h)"
  by (simp add: getHistoryStats_def Let_def fold_statsStep initialStats_def)

lemma byUser_closed:
  "byUser (getHistoryStats e h) u =
     (case filter (\<lambda>s. username s = u) h of
        [] \<Rightarrow> None
      | s0 # rest \<Rightarrow>
          if inheritedName u then None
          else Some \<lparr>sessionCount = length (s0 # rest),
                     watchTime = sum_list (map watchedDuration (s0 # rest)),
                     userLocation = location s0\<rparr>)"
  by (simp add: getHistoryStats_def Let_def fold_statsStep initialStats_def fold_countSession
      split: list.splits)

text \<open>A user whose name is a property name of \<open>Object.prototype\<close> gets no record.\<close>

lemma byUser_inherited:
  "inheritedName u \<Longrightarrow> byUser (getHistoryStats e h) u = None"
  by (simp add: byUser_closed split: list.splits)

lemma stats_closed:
  "totalSessions (getHistoryStats e h) = length h"
  "uniqueUsers (getHistoryStats e h) = card (set (map username h))"
  "uniqueCountries (getHistoryStats e h) = card (set (countries h))"
  "byCountry (getHistoryStats e h) = fold (\<lambda>c m. incrementNamed m c) (countries h) Map.empty"
  "byDay (getHistoryStats e h) d
     = (if d \<in> set (map (\<lambda>s. toLocaleDateString e (startTime s)) h)
        then Some (count_list (map (\<lambda>s. toLocaleDateString e (startTime s)) h) d)
        else None)"
  "byHour (getHistoryStats e h)
     = map (count_list (map (\<lambda>s. getHours e (startTime s)) h)) [0..<24]"
  by (simp_all add: getHistoryStats_def Let_def fold_statsStep initialStats_def
        fold_increment fold_hours_zero)

lemma byUser_count:
  "\<not> inheritedName u \<Longrightarrow>
   map_option sessionCount (byUser (getHistoryStats e h) u)
     = (if filter (\<lambda>s. username s = u) h = [] then None
        else Some (length (filter (\<lambda>s. username s = u) h)))"
  by (simp add: byUser_closed split: list.splits)

lemma byUser_watch:
  "\<not> inheritedName u \<Longrightarrow>
   map_option watchTime (byUser (getHistoryStats e h) u)
     = (if filter (\<lambda>s. username s = u) h = [] then None
        else Some (sum_list (map watchedDuration (filter (\<lambda>s. username s = u) h))))"
  by (simp add: byUser_closed split: list.splits)

lemma perm_count_list: "mset xs = mset ys \<Longrightarrow> count_list xs x = count_list ys x"
  by (metis count_mset)

lemma perm_sum_list:
  fixes f :: "'a \<Rightarrow> int"
  assumes "mset xs = mset ys"
  shows "sum_list (map f xs) = sum_list (map f ys)"
proof -
  have "sum_mset (image_mset f (mset xs)) = sum_mset (image_mset f (mset ys))"
    using assms by simp
  then show ?thesis
    by (simp only: mset_map [symmetric] sum_mset_sum_list)
qed

lemma perm_countries:
  assumes "mset h1 = mset h2"
  shows "mset (countries h1) = mset (countries h2)"
  using assms by (simp add: countries_def)

lemma find_first:
  "find P xs = (case filter P xs of [] \<Rightarrow> None | x # rest \<Rightarrow> Some x)"
  by (induction xs) auto

lemma processSession_user_watched:
  "username (fst (processSession srv cfg e r n st)) = recordUser r"
  "watchedDuration (fst (processSession srv cfg e r n st))
     = orN (r_duration r) 0 - orN (paused_duration r) 0"
  by (simp_all add: processSession_def recordUser_def Let_def split: prod.splits)

lemma processHistory_user_watched:
  "map (\<lambda>s. (username s, watchedDuration s)) (fst (processHistory srv cfg e rs n st))
     = map (\<lambda>r. (recordUser r, orN (r_duration r) 0 - orN (paused_duration r) 0)) rs"
proof (induction rs arbitrary: n st)
  case Nil
  then show ?case by simp
next
  case (Cons r rs)
  obtain p st1 where p: "processSession srv cfg e r n st = (p, st1)"
    by (cases "processSession srv cfg e r n st")
  obtain rest st2 where rest: "processHistory srv cfg e rs (Suc n) st1 = (rest, st2)"
    by (cases "processHistory srv cfg e rs (Suc n) st1")
  from processSession_user_watched [of srv cfg e r n st] p
  have "username p = recordUser r"
    "watchedDuration p = orN (r_duration r) 0 - orN (paused_duration r) 0"
    by simp_all
  moreover from Cons.IH [of "Suc n" st1] rest
  have "map (\<lambda>s. (username s, watchedDuration s)) rest
          = map (\<lambda>r. (recordUser r, orN (r_duration r) 0 - orN (paused_duration r) 0)) rs"
    by simp
  ultimately show ?case
    using p rest by simp
qed

lemma getHistoryDays_window:
  "fst (getHistoryDays srv cfg e days st)
     = sort_key startTime (fst (processHistory srv cfg e (windowRecords srv e days) 0 st))"
  by (simp add: getHistoryDays_fst windowRecords_def split: sum.splits)

lemma getHistoryDays_user_watched:
  "mset (map (\<lambda>s. (username s, watchedDuration s)) (fst (getHistoryDays srv cfg e days st)))
     = mset (map (\<lambda>r. (recordUser r, orN (r_duration r) 0 - orN (paused_duration r) 0))
               (windowRecords srv e days))"
proof -
  have "mset (map (\<lambda>s. (username s, watchedDuration s)) (fst (getHistoryDays srv cfg e days st)))
          = mset (map (\<lambda>s. (username s, watchedDuration s))
                   (fst (processHistory srv cfg e (windowRecords srv e days) 0 st)))"
    by (simp add: getHistoryDays_window)
  then show ?thesis
    by (simp only: processHistory_user_watched)
qed

lemma sum_by_key:
  fixes g :: "'a \<Rightarrow> int"
  shows "sum_list (map g (filter (\<lambda>x. f x = u) xs))
           = sum_list (map snd (filter (\<lambda>p. fst p = u) (map (\<lambda>x. (f x, g x)) xs)))"
  by (induction xs) simp_all

subsection \<open>Default locations of live sessions\<close>

lemma ring_angles_distinct:
  fixes i j n :: nat
  assumes "i < j" and "j < n"
  shows "\<not> (sin (2 * pi * real j / real n) = sin (2 * pi * real i / real n)
            \<and> cos (2 * pi * real j / real n) = cos (2 * pi * real i / real n))"
proof
  assume "sin (2 * pi * real j / real n) = sin (2 * pi * real i / real n)
            \<and> cos (2 * pi * real j / real n) = cos (2 * pi * real i / real n)"
  then obtain k :: int where k: "2 * pi * real j / real n = 2 * pi * real i / real n + 2 * pi * real_of_int k"
    using sin_cos_eq_iff [of "2 * pi * real j / real n" "2 * pi * real i / real n"] by blast
  have n: "0 < real n" using assms by simp
  have "2 * pi * (real j / real n) = 2 * pi * (real i / real n + real_of_int k)"
    using k by (simp add: algebra_simps)
  then have "real j / real n = real i / real n + real_of_int k"
    using pi_gt_zero by (simp only: mult_left_cancel [of "2 * pi"])
  then have "real j = real i + real_of_int k * real n"
    using n by (simp add: field_simps)
  then have "real_of_int (int j) = real_of_int (int i + k * int n)"
    by simp
  then have eq: "int j = int i + k * int n"
    by (simp only: of_int_eq_iff)
  have "0 < k * int n" using eq assms by simp
  then have "0 < k" using assms by (simp add: zero_less_mult_iff)
  then have "1 \<le> k" by simp
  then have "1 * int n \<le> k * int n" by (rule mult_right_mono) simp
  then have "int n \<le> k * int n" by simp
  with eq assms show False by simp
qed

lemma getGeoIP_None:
  "fst (getGeoIP srv ip st) = None \<Longrightarrow> getGeoIP srv ip st = (None, st)"
  by (auto simp add: getGeoIP_def Let_def split: if_splits option.splits sum.splits)

lemma liveStream_unresolved:
  assumes "ip_address r = Some ip" and "fst (getGeoIP srv ip st) = None"
  shows "\<exists>s. liveStream srv cfg e n r i st = (Inr s, st)
             \<and> location s = Some (defaultLocation cfg ip i n)"
  using assms getGeoIP_None [OF assms(2)]
  by (simp add: liveStream_def Let_def)


lemma liveStreams_unresolved:
  assumes "\<forall>r \<in> set ss. \<exists>ip. ip_address r = Some ip \<and> fst (getGeoIP srv ip st) = None"
  shows "\<exists>xs. liveStreams srv cfg e n ss k st = (map Inr xs, st) \<and> length xs = length ss
              \<and> (\<forall>i < length ss. \<exists>ip. location (xs ! i) = Some (defaultLocation cfg ip (k + i) n))"
  using assms
proof (induction ss arbitrary: k)
  case Nil
  then show ?case by simp
next
  case (Cons r ss)
  from Cons.prems obtain ip where ip: "ip_address r = Some ip" "fst (getGeoIP srv ip st) = None"
    by auto
  from liveStream_unresolved [OF ip, of cfg e n k]
  obtain s where s: "liveStream srv cfg e n r k st = (Inr s, st)"
    "location s = Some (defaultLocation cfg ip k n)"
    by blast
  from Cons.prems have "\<forall>r \<in> set ss. \<exists>ip. ip_address r = Some ip \<and> fst (getGeoIP srv ip st) = None"
    by simp
  from Cons.IH [OF this, of "Suc k"]
  obtain xs where xs: "liveStreams srv cfg e n ss (Suc k) st = (map Inr xs, st)"
    "length xs = length ss"
    "\<forall>i < length ss. \<exists>ip. location (xs ! i) = Some (defaultLocation cfg ip (Suc k + i) n)"
    by blast
  have "liveStreams srv cfg e n (r # ss) k st = (map Inr (s # xs), st)"
    using s(1) xs(1) by simp
  moreover have "length (s # xs) = length (r # ss)"
    using xs(2) by simp
  moreover have "\<forall>i < length (r # ss). \<exists>ip. location ((s # xs) ! i) = Some (defaultLocation cfg ip (k + i) n)"
  proof (intro allI impI)
    fix i assume "i < length (r # ss)"
    then show "\<exists>ip. location ((s # xs) ! i) = Some (defaultLocation cfg ip (k + i) n)"
      using s(2) xs(3) by (cases i) auto
  qed
  ultimately show ?case by blast
qed

lemma locKey_defaultLocation:
  "locKey (defaultLocation cfg ip i n)
     = (serverLat cfg + 0.01 * sin (2 * pi * real i / real n),
        serverLon cfg + 0.01 * cos (2 * pi * real i / real n))"
  by (simp add: locKey_def defaultLocation_def Let_def)

lemma ring_distinct:
  "distinct (map (\<lambda>i. Some (a + 0.01 * sin (2 * pi * real i / real n),
                             b + 0.01 * cos (2 * pi * real i / real n))) [0..<n])"
proof -
  have "inj_on (\<lambda>i. Some (a + 0.01 * sin (2 * pi * real i / real n),
                            b + 0.01 * cos (2 * pi * real i / real n))) (set [0..<n])"
  proof (rule inj_onI)
    fix i j
    assume i: "i \<in> set [0..<n]" and j: "j \<in> set [0..<n]"
      and eq: "Some (a + 0.01 * sin (2 * pi * real i / real n), b + 0.01 * cos (2 * pi * real i / real n))
             = Some (a + 0.01 * sin (2 * pi * real j / real n), b + 0.01 * cos (2 * pi * real j / real n))"
    from eq have sc: "sin (2 * pi * real i / real n) = sin (2 * pi * real j / real n)"
      "cos (2 * pi * real i / real n) = cos (2 * pi * real j / real n)"
      by simp_all
    show "i = j"
    proof (rule ccontr)
      assume "i \<noteq> j"
      then consider "i < j" | "j < i" by linarith
      then show False
      proof cases
        case 1
        with j ring_angles_distinct [of i j n] sc show False by simp
      next
        case 2
        with i ring_angles_distinct [of j i n] sc show False by simp
      qed
    qed
  qed
  then show ?thesis by (simp add: distinct_map)
qed

subsection \<open>The history request\<close>



lemma getGeoIP_history_irrelevant [simp]:
  "getGeoIP (srv\<lparr>get_history := g\<rparr>) = getGeoIP srv"
  by (intro ext) (simp add: getGeoIP_def split: option.splits)

lemma processSession_history_irrelevant [simp]:
  "processSession (srv\<lparr>get_history := g\<rparr>) = processSession srv"
  by (intro ext) (simp add: processSession_def getLocationFromIP_def)

lemma processHistory_history_irrelevant [simp]:
  "processHistory (srv\<lparr>get_history := g\<rparr>) cfg e rs n st = processHistory srv cfg e rs n st"
  by (induction rs arbitrary: n st) simp_all


lemma processHistory_origin:
  "s \<in> set (fst (processHistory srv cfg e rs n st))
     \<Longrightarrow> \<exists>r \<in> set rs. \<exists>k st'. s = fst (processSession srv cfg e r k st')"
proof (induction rs arbitrary: n st)
  case Nil
  then show ?case by simp
next
  case (Cons r rs)
  obtain p st1 where p: "processSession srv cfg e r n st = (p, st1)"
    by (cases "processSession srv cfg e r n st")
  obtain rest st2 where rest: "processHistory srv cfg e rs (Suc n) st1 = (rest, st2)"
    by (cases "processHistory srv cfg e rs (Suc n) st1")
  from Cons.prems p rest have "s = p \<or> s \<in> set rest" by simp
  then show ?case
  proof
    assume "s = p"
    with p have "s = fst (processSession srv cfg e r n st)" by simp
    then show ?thesis by auto
  next
    assume "s \<in> set rest"
    with rest have "s \<in> set (fst (processHistory srv cfg e rs (Suc n) st1))" by simp
    from Cons.IH [OF this] show ?thesis by auto
  qed
qed

lemma processSession_located:
  "location (fst (processSession srv cfg e r k st)) \<noteq> None"
  by (simp add: processSession_def Let_def split: prod.splits)

lemma getHistoryDays_located:
  assumes "s \<in> set (fst (getHistoryDays srv cfg e days st))"
  shows "location s \<noteq> None"
proof -
  from assms have "s \<in> set (fst (processHistory srv cfg e (windowRecords srv e days) 0 st))"
    by (simp add: getHistoryDays_window)
  from processHistory_origin [OF this]
  obtain r k st' where "s = fst (processSession srv cfg e r k st')"
    by blast
  then show ?thesis
    by (simp add: processSession_located)
qed





section \<open>Properties\<close>

text \<open>
  C1. From \<open>Stopped\<close>, \<open>play()\<close> followed by \<open>len(timeline)\<close> calls of \<open>advance()\<close> should
  end \<open>Stopped\<close> at index 0, playback ending exactly when the index reaches the length
  of the timeline. The code compares the index with the number of sessions instead.
  With three sessions that start and stop together the timeline has two instants: after
  \<open>play()\<close> and two \<open>advance()\<close> the controller is still playing, at index 2, beyond the
  timeline. With one session of two hours the timeline has three instants and the
  first \<open>advance()\<close> already stops playback.
\<close>

theorem advance_compares_with_session_count:
  "timeline (historyPlayback (historyView threeTogether))
     = Some [Some 1699990000000, Some 1699991000000]
   \<and> \<not> isPlaying (historyPlayback (historyView threeTogether))
   \<and> currentIndex (historyPlayback (historyView threeTogether)) = 0
   \<and> isPlaying (historyPlayback
        (advance exConfig (advance exConfig (togglePlayback (historyView threeTogether)))))
   \<and> currentIndex (historyPlayback
        (advance exConfig (advance exConfig (togglePlayback (historyView threeTogether))))) = 2
   \<and> timeline (historyPlayback (historyView oneLong))
        = Some [Some 1699990000000, Some 1699993600000, Some 1699997200000]
   \<and> \<not> isPlaying (historyPlayback (advance exConfig (togglePlayback (historyView oneLong))))
   \<and> currentIndex (historyPlayback (advance exConfig (togglePlayback (historyView oneLong)))) = 0"
  by (simp add: historyView_def loadHistoryData_frame loadHistoryData_index
        exHistory_def [symmetric] threeTogether_timeline threeTogether_length oneLong_timeline oneLong_length
        advance_def togglePlayback_def Let_def showHistoryFrame_index)

text \<open>
  C2. The timeline of an empty batch of sessions should be empty. The code ends with
  an unconditional \<open>push(timeline[timeline.length - 1])\<close>, so for the empty batch the
  timeline is the one-element sequence holding \<open>undefined\<close>.
\<close>

theorem createHistoryTimeline_empty:
  "createHistoryTimeline [] = [None] \<and> length (createHistoryTimeline []) = 1"
  by (simp add: createHistoryTimeline_def collectTimestamps_def jsIndex_def
        enhance.simps [of "[]" 0 "[]"])

text \<open>
  C3, as the code has it. The total watched duration of the batch \<open>getHistoryDays\<close>
  returns is the sum, over the records of the answer that fall into the window, of the
  record's \<open>duration\<close> minus its \<open>paused_duration\<close>, each 0 when missing; nothing is
  clipped at zero and the start and stop times do not enter. For a user name that is
  no property name of \<open>Object.prototype\<close>, the user's \<open>watchTime\<close> is the same sum
  over that user's records.
\<close>

theorem totalWatchTime_unclipped:
  "totalWatchTime (getHistoryStats e' (fst (getHistoryDays srv cfg e days st)))
     = (\<Sum>r\<leftarrow>windowRecords srv e days. orN (r_duration r) 0 - orN (paused_duration r) 0)
   \<and> (\<not> inheritedName u \<longrightarrow>
        map_option watchTime
          (byUser (getHistoryStats e' (fst (getHistoryDays srv cfg e days st))) u)
        = (if u \<in> recordUser ` set (windowRecords srv e days)
           then Some (\<Sum>r\<leftarrow>filter (\<lambda>r. recordUser r = u) (windowRecords srv e days).
                        orN (r_duration r) 0 - orN (paused_duration r) 0)
           else None))"
proof -
  define H where "H = fst (getHistoryDays srv cfg e days st)"
  define R where "R = windowRecords srv e days"
  define PH where "PH = map (\<lambda>s. (username s, watchedDuration s)) H"
  define PR where "PR = map (\<lambda>r. (recordUser r, orN (r_duration r) 0 - orN (paused_duration r) 0)) R"
  have perm: "mset PH = mset PR"
    unfolding PH_def PR_def H_def R_def by (rule getHistoryDays_user_watched)
  have "sum_list (map watchedDuration H) = sum_list (map snd PH)"
    by (simp add: PH_def comp_def)
  also have "\<dots> = sum_list (map snd PR)"
    using perm by (rule perm_sum_list)
  also have "\<dots> = (\<Sum>r\<leftarrow>R. orN (r_duration r) 0 - orN (paused_duration r) 0)"
    by (simp add: PR_def comp_def)
  finally have total: "totalWatchTime (getHistoryStats e' H)
      = (\<Sum>r\<leftarrow>R. orN (r_duration r) 0 - orN (paused_duration r) 0)"
    by (simp add: totalWatchTime_sum)
  have "mset (filter (\<lambda>p. fst p = u) PH) = mset (filter (\<lambda>p. fst p = u) PR)"
    using perm by simp
  then have "sum_list (map snd (filter (\<lambda>p. fst p = u) PH))
               = sum_list (map snd (filter (\<lambda>p. fst p = u) PR))"
    by (rule perm_sum_list)
  then have usum: "sum_list (map watchedDuration (filter (\<lambda>s. username s = u) H))
      = (\<Sum>r\<leftarrow>filter (\<lambda>r. recordUser r = u) R.
           orN (r_duration r) 0 - orN (paused_duration r) 0)"
    unfolding PH_def PR_def by (simp only: sum_by_key [symmetric])
  have "set (map fst PH) = set (map fst PR)"
    using perm by (metis mset_eq_setD mset_map)
  then have users: "username ` set H = recordUser ` set R"
    by (simp add: PH_def PR_def image_image)
  have empty: "filter (\<lambda>s. username s = u) H = [] \<longleftrightarrow> u \<notin> username ` set H"
    by (auto simp add: filter_empty_conv)
  have user: "\<not> inheritedName u \<longrightarrow>
        map_option watchTime (byUser (getHistoryStats e' H) u)
        = (if u \<in> recordUser ` set R
           then Some (\<Sum>r\<leftarrow>filter (\<lambda>r. recordUser r = u) R.
                        orN (r_duration r) 0 - orN (paused_duration r) 0)
           else None)"
    using usum empty users by (simp add: byUser_watch)
  from total user show ?thesis
    unfolding H_def R_def by (rule conjI)
qed

theorem totalWatchTime_unclipped_witness:
  "\<not> inheritedName ''ann''
   \<and> windowRecords (tautulli [] [pausedRaw]) exEnv 10 = [pausedRaw]
   \<and> totalWatchTime (getHistoryStats exEnv
       (fst (getHistoryDays (tautulli [] [pausedRaw]) exConfig exEnv 10 (api newApp)))) = - 20
   \<and> map_option watchTime
        (byUser (getHistoryStats exEnv
           (fst (getHistoryDays (tautulli [] [pausedRaw]) exConfig exEnv 10 (api newApp))))
           ''ann'') = Some (- 20)"
proof -
  have name: "\<not> inheritedName ''ann''"
    by (simp add: inheritedName_def)
  have window: "windowRecords (tautulli [] [pausedRaw]) exEnv 10 = [pausedRaw]"
    by (simp add: windowRecords_def history_eval pausedRaw_def)
  have user: "recordUser pausedRaw = ''ann''"
    by (simp add: recordUser_def pausedRaw_def blankRaw_def orS_def orElseS_def truthyS_def)
  have watched: "orN (r_duration pausedRaw) 0 - orN (paused_duration pausedRaw) 0 = - 20"
    by (simp add: pausedRaw_def blankRaw_def orN_def truthyN_def)
  from totalWatchTime_unclipped [of exEnv "tautulli [] [pausedRaw]" exConfig exEnv 10 "api newApp" "''ann''"]
  show ?thesis
    using name unfolding window by (simp add: user watched)
qed

text \<open>
  C3 as stated fails: for a session of 40 seconds with 10 seconds of play and 30 of
  pause the code's total is \<open>-20\<close>, which no sum of values clipped at zero can be; the
  sum of \<open>max(0, stopTime - startTime - pausedDuration)\<close> over the batch is 39970.
\<close>

theorem totalWatchTime_clip_counterexample:
  "totalWatchTime (getHistoryStats exEnv (exHistory [pausedRaw])) = - 20
   \<and> (\<Sum>s\<leftarrow>exHistory [pausedRaw]. max 0 (stopTime s - startTime s - pausedDuration s)) = 39970
   \<and> map_option watchTime (byUser (getHistoryStats exEnv (exHistory [pausedRaw])) ''ann'') = Some (- 20)"
  by (simp add: totalWatchTime_sum byUser_closed inheritedName_def exHistory_def history_eval
        pausedRaw_def)

text \<open>
  C4. In a poll cycle whose session batch cannot be fetched, the map should keep the
  markers and connections of the previous cycle. \<open>getActivity\<close> turns the failure into
  \<open>null\<close> and \<open>getActiveStreams\<close> turns that into the empty batch, which \<open>refresh\<close>
  hands to \<open>updateStreams\<close>: after one successful cycle with one session, a cycle
  against an unreachable server removes the marker and its connection and shows the
  connection as established.
\<close>

theorem refresh_unreachable_clears_map:
  "map fst (markers (mapManager (refresh (tautulli [liveRaw] []) exConfig exEnv newApp)))
     = [ [Str ''7'', Str ''-'', Num 1699999000, Str ''-'', Num 0] ]
   \<and> map fst (connections (mapManager (refresh (tautulli [liveRaw] []) exConfig exEnv newApp)))
     = [ [Str ''7'', Str ''-'', Num 1699999000, Str ''-'', Num 0] ]
   \<and> markers (mapManager (refresh unreachable exConfig exEnv
        (refresh (tautulli [liveRaw] []) exConfig exEnv newApp))) = []
   \<and> connections (mapManager (refresh unreachable exConfig exEnv
        (refresh (tautulli [liveRaw] []) exConfig exEnv newApp))) = []
   \<and> isConnected (refresh unreachable exConfig exEnv
        (refresh (tautulli [liveRaw] []) exConfig exEnv newApp))"
  by (simp add: live_eval unreachable_def removeStream_def)

text \<open>
  C5, as the code has it. With a timeline present, and unless \<open>i = 0\<close> while the view
  is in history mode: \<open>seek(i)\<close> for \<open>0 \<le> i < len(timeline)\<close> stores \<open>i\<close> as the index
  and emits the snapshot of the sessions active at \<open>timeline[i]\<close> to the map, the time
  display and the slider; for any other \<open>i\<close> it changes nothing, so the index is not
  clamped.
\<close>

theorem seekPlayback_no_clamp:
  assumes "timeline (historyPlayback a) = Some tline"
    and "\<not> (currentMode a = History \<and> i = 0)"
  shows "seekPlayback cfg i a =
     (if 0 \<le> i \<and> i < int (length tline)
      then a\<lparr>mapManager := updateStreams cfg (activeSessions (historyData a) (tline ! nat i))
                              (mapManager a),
             playbackTime := FrameTime (tline ! nat i),
             sliderValue := i,
             historyPlayback := (historyPlayback a)\<lparr>currentIndex := i\<rparr>\<rparr>
      else a)"
  using assms by (simp add: seekPlayback_def showHistoryFrame_timeline)

theorem seekPlayback_no_clamp_witness:
  "timeline (historyPlayback (historyView threeTogether))
     = Some [Some 1699990000000, Some 1699991000000]
   \<and> \<not> (currentMode (historyView threeTogether) = History \<and> (1::int) = 0)
   \<and> currentIndex (historyPlayback (seekPlayback exConfig 1 (historyView threeTogether))) = 1
   \<and> playbackTime (seekPlayback exConfig 1 (historyView threeTogether))
        = FrameTime (Some 1699991000000)
   \<and> seekPlayback exConfig (- 1) (historyView threeTogether) = historyView threeTogether"
proof -
  have tl: "timeline (historyPlayback (historyView threeTogether))
              = Some [Some 1699990000000, Some 1699991000000]"
    by (simp add: historyView_facts threeTogether_timeline)
  have one: "\<not> (currentMode (historyView threeTogether) = History \<and> (1::int) = 0)"
    by simp
  have neg: "\<not> (currentMode (historyView threeTogether) = History \<and> (- 1::int) = 0)"
    by simp
  show ?thesis
    using tl seekPlayback_no_clamp [OF tl one, of exConfig]
      seekPlayback_no_clamp [OF tl neg, of exConfig]
    by simp
qed

text \<open>
  C5 as stated fails: on a timeline of two instants \<open>seek(7)\<close> leaves the index at 0,
  where the clamp would give 1, and leaves the whole state as it was; \<open>seek(0)\<close> in
  history mode shows the overview of all sessions, not the snapshot of the first
  instant.
\<close>

theorem seekPlayback_clamp_counterexample:
  "timeline (historyPlayback (historyView threeTogether))
     = Some [Some 1699990000000, Some 1699991000000]
   \<and> max 0 (min 7 (int (length [Some 1699990000000, Some (1699991000000::int)]) - 1))
       = (1::int)
   \<and> currentIndex (historyPlayback (seekPlayback exConfig 7 (historyView threeTogether))) = 0
   \<and> seekPlayback exConfig 7 (historyView threeTogether) = historyView threeTogether
   \<and> playbackTime (seekPlayback exConfig 0 (historyView threeTogether))
        \<noteq> FrameTime (Some 1699990000000)"
  by (simp add: seekPlayback_def historyView_facts threeTogether_timeline
        showHistoryFrame_timeline [where tline = "[Some 1699990000000, Some 1699991000000]"])
     (simp add: showHistoryFrame_def historyView_facts showAllHistorySessions_def Let_def)

text \<open>
  C6, as the code has it. Take a playback state with a timeline in which every session
  has a location (as every session \<open>getHistoryDays\<close> builds has), and a valid index
  \<open>i\<close> whose entry is the instant \<open>t\<close>. Unless \<open>i = 0\<close> while the view is in history
  mode, \<open>showHistoryFrame(i)\<close> hands to the map exactly the sessions \<open>s\<close> with
  \<open>startTime s \<le> t \<le> stopTime s\<close>, both ends included, and afterwards the markers of
  the map are exactly the keys of these sessions; a session with
  \<open>startTime = stopTime = t\<close> has its marker.
\<close>

theorem showHistoryFrame_closed_interval:
  assumes "timeline (historyPlayback a) = Some tline"
    and "0 \<le> i" and "i < int (length tline)"
    and "tline ! nat i = Some t"
    and "\<not> (currentMode a = History \<and> i = 0)"
    and "\<forall>s \<in> set (historyData a). location s \<noteq> None"
  shows "mapManager (showHistoryFrame cfg i a)
           = updateStreams cfg
               (filter (\<lambda>s. startTime s \<le> t \<and> t \<le> stopTime s) (historyData a)) (mapManager a)
       \<and> fst ` set (markers (mapManager (showHistoryFrame cfg i a)))
           = set (map sessionKey
                   (filter (\<lambda>s. startTime s \<le> t \<and> t \<le> stopTime s) (historyData a)))
       \<and> (\<forall>s \<in> set (historyData a). startTime s = t \<and> stopTime s = t
              \<longrightarrow> sessionKey s \<in> fst ` set (markers (mapManager (showHistoryFrame cfg i a))))"
proof -
  have frame: "mapManager (showHistoryFrame cfg i a)
           = updateStreams cfg
               (filter (\<lambda>s. startTime s \<le> t \<and> t \<le> stopTime s) (historyData a)) (mapManager a)"
    using assms(2-4)
    by (simp add: showHistoryFrame_timeline [OF assms(1) assms(5)] activeSessions_Some)
  have "\<forall>s \<in> set (filter (\<lambda>s. startTime s \<le> t \<and> t \<le> stopTime s) (historyData a)).
          location s \<noteq> None"
    using assms(6) by simp
  from updateStreams_keys [OF this, of cfg "mapManager a"]
  have keys: "fst ` set (markers (mapManager (showHistoryFrame cfg i a)))
           = set (map sessionKey
                   (filter (\<lambda>s. startTime s \<le> t \<and> t \<le> stopTime s) (historyData a)))"
    by (simp add: frame)
  have "\<forall>s \<in> set (historyData a). startTime s = t \<and> stopTime s = t
              \<longrightarrow> sessionKey s \<in> fst ` set (markers (mapManager (showHistoryFrame cfg i a)))"
    unfolding keys by auto
  with frame keys show ?thesis by blast
qed

theorem showHistoryFrame_closed_interval_witness:
  "map (\<lambda>s. (username s, sessionKey s, startTime s, stopTime s))
      (historyData (historyView meeting))
     = [(''ann'', [Str ''hist-'', Num 11, Str ''-'', Num 1], 1699990000000, 1699991000000),
        (''bob'', [Str ''hist-'', Num 12, Str ''-'', Num 0], 1699991000000, 1699991000000)]
   \<and> fst ` set (markers (mapManager (showHistoryFrame exConfig 1 (historyView meeting))))
       = {[Str ''hist-'', Num 11, Str ''-'', Num 1], [Str ''hist-'', Num 12, Str ''-'', Num 0]}"
proof -
  have tl: "timeline (historyPlayback (historyView meeting))
              = Some [Some 1699990000000, Some 1699991000000]"
    by (simp add: historyView_facts meeting_timeline)
  have mode: "\<not> (currentMode (historyView meeting) = History \<and> (1::int) = 0)"
    by simp
  have loc: "\<forall>s \<in> set (historyData (historyView meeting)). location s \<noteq> None"
    by (simp add: historyView_facts exHistory_def history_eval meeting_def)
  have h: "map (\<lambda>s. (username s, sessionKey s, startTime s, stopTime s))
      (historyData (historyView meeting))
     = [(''ann'', [Str ''hist-'', Num 11, Str ''-'', Num 1], 1699990000000, 1699991000000),
        (''bob'', [Str ''hist-'', Num 12, Str ''-'', Num 0], 1699991000000, 1699991000000)]"
    by (simp add: historyView_facts meeting_history)
  have keys: "set (map sessionKey
                   (filter (\<lambda>s. startTime s \<le> 1699991000000 \<and> 1699991000000 \<le> stopTime s)
                      (historyData (historyView meeting))))
       = {[Str ''hist-'', Num 11, Str ''-'', Num 1], [Str ''hist-'', Num 12, Str ''-'', Num 0]}"
    by (simp add: historyView_facts exHistory_def history_eval meeting_def)
  have lo: "(0::int) \<le> 1"
    by simp
  have hi: "(1::int) < int (length [Some 1699990000000, Some (1699991000000::int)])"
    by simp
  have at: "[Some 1699990000000, Some (1699991000000::int)] ! nat 1 = Some 1699991000000"
    by simp
  from showHistoryFrame_closed_interval [OF tl lo hi at mode loc, of exConfig]
  have "fst ` set (markers (mapManager (showHistoryFrame exConfig 1 (historyView meeting))))
          = set (map sessionKey
                   (filter (\<lambda>s. startTime s \<le> 1699991000000 \<and> 1699991000000 \<le> stopTime s)
                      (historyData (historyView meeting))))"
    by (rule conjunct2 [THEN conjunct1])
  then have "fst ` set (markers (mapManager (showHistoryFrame exConfig 1 (historyView meeting))))
       = {[Str ''hist-'', Num 11, Str ''-'', Num 1], [Str ''hist-'', Num 12, Str ''-'', Num 0]}"
    by (simp only: keys)
  with h show ?thesis by (rule conjI)
qed

text \<open>
  C6 as stated fails at index 0 in history mode, where \<open>showHistoryFrame\<close> shows every
  session. One session stops at the instant at which another, without extent, starts
  and stops: only the first is active at \<open>timeline[0]\<close>, yet frame 0 puts both on the
  map.
\<close>

theorem showHistoryFrame_overview_counterexample:
  "currentMode (historyView meeting) = History
   \<and> timeline (historyPlayback (historyView meeting))
       = Some [Some 1699990000000, Some 1699991000000]
   \<and> map username (activeSessions (historyData (historyView meeting)) (Some 1699990000000))
       = [''ann'']
   \<and> map (\<lambda>km. username (streamData (snd km)))
         (markers (mapManager (showHistoryFrame exConfig 0 (historyView meeting))))
       = [''ann'', ''bob'']"
proof -
  have active: "map username (activeSessions (historyData (historyView meeting)) (Some 1699990000000))
       = [''ann'']"
    by (simp add: historyView_facts activeSessions_def activeAt_def exHistory_def history_eval
        meeting_def)
  have shown: "map (\<lambda>km. username (streamData (snd km)))
         (markers (mapManager (showHistoryFrame exConfig 0 (historyView meeting))))
       = [''ann'', ''bob'']"
    by (simp add: showHistoryFrame_def historyView_facts showAllHistorySessions_def Let_def
        exHistory_def history_eval meeting_def groupByLocation_def hasValidLocation_def
        pushTo_def locKey_def addGroupMarkers_def markers_addHistoryMarker
        updateStreams_Nil_markers createUserMarker_def stream.defs upt_rec)
  from active shown show ?thesis
    by (simp add: historyView_facts meeting_timeline)
qed

text \<open>
  C7, as the code has it. In a live batch of \<open>n\<close> sessions that all have an address
  and of which none has a resolvable geolocation, the session at batch index \<open>i\<close> is
  placed at \<open>(serverLat + 0.01 sin(2\<pi>i/n), serverLon + 0.01 cos(2\<pi>i/n))\<close>: the angle
  of the offset calculator on a ring of radius 0.01 around the server, without the
  longitude scaling, determined by the batch alone; in exact arithmetic no two sessions
  of the batch share a coordinate.
\<close>

theorem live_default_ring:
  assumes "getActivity srv = Some \<lparr>sessions = Some ss\<rparr>"
    and "\<forall>r \<in> set ss. \<exists>ip. ip_address r = Some ip \<and> fst (getGeoIP srv ip st) = None"
  shows "map (map_option locKey \<circ> location) (fst (getActiveStreams srv cfg e st))
           = map (\<lambda>i. Some (serverLat cfg + 0.01 * sin (2 * pi * real i / real (length ss)),
                              serverLon cfg + 0.01 * cos (2 * pi * real i / real (length ss))))
               [0..<length ss]
         \<and> distinct (map (map_option locKey \<circ> location) (fst (getActiveStreams srv cfg e st)))"
proof -
  from liveStreams_unresolved [OF assms(2), of cfg e "length ss" 0]
  obtain xs where xs: "liveStreams srv cfg e (length ss) ss 0 st = (map Inr xs, st)"
    "length xs = length ss"
    "\<forall>i < length ss. \<exists>ip. location (xs ! i) = Some (defaultLocation cfg ip (0 + i) (length ss))"
    by blast
  have "\<forall>x \<in> set xs. location x \<noteq> None"
  proof (intro ballI notI)
    fix x assume "x \<in> set xs" and none: "location x = None"
    then obtain i where "i < length xs" "xs ! i = x" by (auto simp: in_set_conv_nth)
    with xs(2,3) none show False by auto
  qed
  then have located: "filter (\<lambda>s. location s \<noteq> None) xs = xs"
    by (rule filter_True)
  have noerr: "filter isl (map Inr xs) = []"
    by (simp add: filter_empty_conv)
  have projr_Inr: "projr \<circ> Inr = (\<lambda>x::stream. x)"
    by (rule ext) simp
  have "getActiveStreams srv cfg e st = (filter (\<lambda>s. location s \<noteq> None) xs, st)"
    using assms(1) xs(1) noerr by (simp add: getActiveStreams_def projr_Inr)
  then have streams: "fst (getActiveStreams srv cfg e st) = xs"
    by (simp only: located fst_conv)
  have coords: "map (map_option locKey \<circ> location) xs
                  = map (\<lambda>i. Some (serverLat cfg + 0.01 * sin (2 * pi * real i / real (length ss)),
                              serverLon cfg + 0.01 * cos (2 * pi * real i / real (length ss))))
                      [0..<length ss]"
  proof (rule nth_equalityI)
    show "length (map (map_option locKey \<circ> location) xs)
            = length (map (\<lambda>i. Some (serverLat cfg + 0.01 * sin (2 * pi * real i / real (length ss)),
                              serverLon cfg + 0.01 * cos (2 * pi * real i / real (length ss))))
                      [0..<length ss])"
      using xs(2) by simp
  next
    fix i assume "i < length (map (map_option locKey \<circ> location) xs)"
    then have i: "i < length ss" using xs(2) by simp
    with xs(3) obtain ip where "location (xs ! i) = Some (defaultLocation cfg ip i (length ss))"
      by auto
    then show "map (map_option locKey \<circ> location) xs ! i
            = map (\<lambda>i. Some (serverLat cfg + 0.01 * sin (2 * pi * real i / real (length ss)),
                              serverLon cfg + 0.01 * cos (2 * pi * real i / real (length ss))))
                      [0..<length ss] ! i"
      using i xs(2) by (simp add: locKey_defaultLocation)
  qed
  show ?thesis
    unfolding streams coords using ring_distinct by simp
qed


theorem live_default_ring_witness:
  "map (map_option locKey \<circ> location)
      (fst (getActiveStreams (tautulli [liveRaw, liveRaw] []) exConfig exEnv (api newApp)))
     = [Some (48.856614, 2.362222), Some (48.856614, 2.342222)]
   \<and> distinct (map (map_option locKey \<circ> location)
        (fst (getActiveStreams (tautulli [liveRaw, liveRaw] []) exConfig exEnv (api newApp))))"
proof -
  have act: "getActivity (tautulli [liveRaw, liveRaw] []) = Some \<lparr>sessions = Some [liveRaw, liveRaw]\<rparr>"
    by (simp add: getActivity_def tautulli_def)
  have unres: "\<forall>r \<in> set [liveRaw, liveRaw]. \<exists>ip. ip_address r = Some ip
                 \<and> fst (getGeoIP (tautulli [liveRaw, liveRaw] []) ip (api newApp)) = None"
    by (simp add: liveRaw_def blankRaw_def getGeoIP_def isLocalIP_def startsWith_def)
  have two: "[0..<length [liveRaw, liveRaw]] = [0, 1]"
    by (simp add: upt_rec)
  from live_default_ring [OF act unres, of exConfig exEnv] show ?thesis
    unfolding two by (simp add: exConfig_def)
qed

text \<open>
  C7 as stated fails for historical sessions: \<open>getLocationFromIP\<close> places a session
  without geolocation at two random offsets from the server. When \<open>Math.random()\<close>
  returns 0.5 each time, three sessions of one batch share the server's coordinate;
  when it returns 0.75 each time the same batch lies elsewhere, and its first session
  is not at the latitude of the server, where angle 0 of a ring would put it.
\<close>

theorem history_location_counterexample:
  "map (map_option locKey \<circ> location) (exHistory threeTogether)
     = [Some (48.856614, 2.352222), Some (48.856614, 2.352222), Some (48.856614, 2.352222)]
   \<and> \<not> distinct (map (map_option locKey \<circ> location) (exHistory threeTogether))
   \<and> map (map_option locKey \<circ> location)
        (fst (getHistoryDays (tautulli [] threeTogether) exConfig
                (exEnv\<lparr>random := (\<lambda>k. 3 / 4)\<rparr>) 10 (api newApp)))
     = [Some (48.861614, 2.357222), Some (48.861614, 2.357222), Some (48.861614, 2.357222)]
   \<and> sin (2 * pi * real (0::nat) / real (3::nat)) = 0
   \<and> serverLat exConfig \<noteq> 48.861614"
  by (simp add: exHistory_def history_eval threeTogether_def locKey_def)

text \<open>
  C8. For naturals \<open>index\<close> and \<open>total \<ge> 1\<close>: the offset is \<open>{0, 0}\<close> when
  \<open>total = 1\<close>; otherwise it is the point at angle \<open>2\<pi>\<cdot>index/total\<close> on the ring of
  fixed radius \<open>r = 0.002\<close>, with the longitude component scaled by \<open>1.5\<close>.
\<close>

theorem calculateOffset_ring:
  assumes "1 \<le> ntotal"
  shows "calculateOffset index ntotal =
           (if ntotal = 1 then \<lparr>lat = 0, lon = 0\<rparr>
            else \<lparr>lat = 0.002 * sin (2 * pi * real index / real ntotal),
                  lon = 1.5 * (0.002 * cos (2 * pi * real index / real ntotal))\<rparr>)"
  by (simp add: calculateOffset_def Let_def)

theorem calculateOffset_ring_witness:
  "(1::nat) \<le> 2 \<and> calculateOffset 1 2 = \<lparr>lat = 0, lon = - 0.003\<rparr>
     \<and> calculateOffset 0 1 = \<lparr>lat = 0, lon = 0\<rparr>"
  using calculateOffset_ring [of 2 1] calculateOffset_ring [of 1 0] by simp

text \<open>
  C9, as the code has it. For two batches that are permutations of each other the
  aggregator gives the same totals, the same numbers of unique users and countries and
  the same per-country, per-day and per-hour rollups. For a user name that is no
  property name of \<open>Object.prototype\<close> it gives the same session count and watch
  time, and the location recorded for the user is the location of that user's first
  session in the order of the input.
\<close>

theorem getHistoryStats_permutation:
  assumes "mset h1 = mset h2"
  shows "totalSessions (getHistoryStats e h1) = totalSessions (getHistoryStats e h2)
       \<and> totalWatchTime (getHistoryStats e h1) = totalWatchTime (getHistoryStats e h2)
       \<and> uniqueUsers (getHistoryStats e h1) = uniqueUsers (getHistoryStats e h2)
       \<and> uniqueCountries (getHistoryStats e h1) = uniqueCountries (getHistoryStats e h2)
       \<and> byCountry (getHistoryStats e h1) = byCountry (getHistoryStats e h2)
       \<and> byDay (getHistoryStats e h1) = byDay (getHistoryStats e h2)
       \<and> byHour (getHistoryStats e h1) = byHour (getHistoryStats e h2)
       \<and> (\<not> inheritedName u \<longrightarrow>
            map_option sessionCount (byUser (getHistoryStats e h1) u)
              = map_option sessionCount (byUser (getHistoryStats e h2) u)
            \<and> map_option watchTime (byUser (getHistoryStats e h1) u)
              = map_option watchTime (byUser (getHistoryStats e h2) u)
            \<and> map_option userLocation (byUser (getHistoryStats e h1) u)
              = map_option location (find (\<lambda>s. username s = u) h1))"
proof -
  have len: "length h1 = length h2"
    using assms by (rule mset_eq_length)
  have sets: "set h1 = set h2"
    using assms by (rule mset_eq_setD)
  have cs: "mset (countries h1) = mset (countries h2)"
    using assms by (rule perm_countries)
  have ds: "mset (map (\<lambda>s. toLocaleDateString e (startTime s)) h1)
              = mset (map (\<lambda>s. toLocaleDateString e (startTime s)) h2)"
    using assms by simp
  have hs: "mset (map (\<lambda>s. getHours e (startTime s)) h1)
              = mset (map (\<lambda>s. getHours e (startTime s)) h2)"
    using assms by simp
  have us: "mset (filter (\<lambda>s. username s = u) h1) = mset (filter (\<lambda>s. username s = u) h2)"
    using assms by simp
  have ulen: "length (filter (\<lambda>s. username s = u) h1) = length (filter (\<lambda>s. username s = u) h2)"
    using us by (rule mset_eq_length)
  have usum: "sum_list (map watchedDuration (filter (\<lambda>s. username s = u) h1))
                = sum_list (map watchedDuration (filter (\<lambda>s. username s = u) h2))"
    using us by (rule perm_sum_list)
  have empty: "filter (\<lambda>s. username s = u) h1 = [] \<longleftrightarrow> filter (\<lambda>s. username s = u) h2 = []"
    using ulen by (metis length_0_conv)
  have eq1: "totalSessions (getHistoryStats e h1) = totalSessions (getHistoryStats e h2)"
    using len by (simp add: stats_closed)
  have eq2: "totalWatchTime (getHistoryStats e h1) = totalWatchTime (getHistoryStats e h2)"
    using perm_sum_list [OF assms, of watchedDuration] by (simp add: totalWatchTime_sum)
  have eq3: "uniqueUsers (getHistoryStats e h1) = uniqueUsers (getHistoryStats e h2)"
    using sets by (simp add: stats_closed)
  have eq4: "uniqueCountries (getHistoryStats e h1) = uniqueCountries (getHistoryStats e h2)"
    using mset_eq_setD [OF cs] by (simp add: stats_closed)
  have eq5: "byCountry (getHistoryStats e h1) = byCountry (getHistoryStats e h2)"
    by (simp only: stats_closed fold_incrementNamed_perm [OF cs])
  have eq6: "byDay (getHistoryStats e h1) = byDay (getHistoryStats e h2)"
    by (rule ext) (simp only: stats_closed mset_eq_setD [OF ds] perm_count_list [OF ds])
  have eq7: "byHour (getHistoryStats e h1) = byHour (getHistoryStats e h2)"
    using perm_count_list [OF hs] by (simp add: stats_closed)
  have eq8: "\<not> inheritedName u \<longrightarrow>
            map_option sessionCount (byUser (getHistoryStats e h1) u)
              = map_option sessionCount (byUser (getHistoryStats e h2) u)
            \<and> map_option watchTime (byUser (getHistoryStats e h1) u)
              = map_option watchTime (byUser (getHistoryStats e h2) u)
            \<and> map_option userLocation (byUser (getHistoryStats e h1) u)
              = map_option location (find (\<lambda>s. username s = u) h1)"
  proof
    assume u: "\<not> inheritedName u"
    have a: "map_option sessionCount (byUser (getHistoryStats e h1) u)
              = map_option sessionCount (byUser (getHistoryStats e h2) u)"
      using ulen empty by (simp add: byUser_count [OF u])
    have b: "map_option watchTime (byUser (getHistoryStats e h1) u)
              = map_option watchTime (byUser (getHistoryStats e h2) u)"
      using usum empty by (simp add: byUser_watch [OF u])
    have c: "map_option userLocation (byUser (getHistoryStats e h1) u)
              = map_option location (find (\<lambda>s. username s = u) h1)"
      using u by (simp add: byUser_closed find_first split: list.splits)
    from a b c show "map_option sessionCount (byUser (getHistoryStats e h1) u)
              = map_option sessionCount (byUser (getHistoryStats e h2) u)
            \<and> map_option watchTime (byUser (getHistoryStats e h1) u)
              = map_option watchTime (byUser (getHistoryStats e h2) u)
            \<and> map_option userLocation (byUser (getHistoryStats e h1) u)
              = map_option location (find (\<lambda>s. username s = u) h1)"
      by blast
  qed
  from eq1 eq2 eq3 eq4 eq5 eq6 eq7 eq8 show ?thesis by blast
qed

theorem getHistoryStats_permutation_witness:
  "mset (rev (exHistory twoPlaces)) = mset (exHistory twoPlaces)
   \<and> \<not> inheritedName ''ann''
   \<and> totalWatchTime (getHistoryStats exEnv (rev (exHistory twoPlaces)))
       = totalWatchTime (getHistoryStats exEnv (exHistory twoPlaces))
   \<and> byCountry (getHistoryStats exEnv (rev (exHistory twoPlaces)))
       = byCountry (getHistoryStats exEnv (exHistory twoPlaces))
   \<and> map_option sessionCount
         (byUser (getHistoryStats exEnv (rev (exHistory twoPlaces))) ''ann'')
       = map_option sessionCount (byUser (getHistoryStats exEnv (exHistory twoPlaces)) ''ann'')"
proof -
  have perm: "mset (rev (exHistory twoPlaces)) = mset (exHistory twoPlaces)"
    by simp
  have name: "\<not> inheritedName ''ann''"
    by (simp add: inheritedName_def)
  from getHistoryStats_permutation [OF perm, of exEnv "''ann''"] perm name show ?thesis
    by blast
qed

text \<open>
  C9 as stated fails: a user with two sessions from two addresses gets the location of
  whichever session comes first, so reversing the batch changes the result.
\<close>

theorem getHistoryStats_order_counterexample:
  "mset (rev (exHistory twoPlaces)) = mset (exHistory twoPlaces)
   \<and> map_option userLocation (byUser (getHistoryStats exEnv (exHistory twoPlaces)) ''ann'')
       = Some (Some \<lparr>lat = 48.856614, lon = 2.352222, city = ''Local Network'',
                      region = Some [], country = ''LAN'', isp = Some ''Local Network''\<rparr>)
   \<and> map_option userLocation
         (byUser (getHistoryStats exEnv (rev (exHistory twoPlaces))) ''ann'')
       = Some (Some \<lparr>lat = 48.856614, lon = 2.352222, city = ''Unknown'',
                      region = Some [], country = ''Unknown'', isp = Some ''Unknown ISP''\<rparr>)
   \<and> getHistoryStats exEnv (rev (exHistory twoPlaces))
       \<noteq> getHistoryStats exEnv (exHistory twoPlaces)"
proof -
  have a: "map_option userLocation (byUser (getHistoryStats exEnv (exHistory twoPlaces)) ''ann'')
       = Some (Some \<lparr>lat = 48.856614, lon = 2.352222, city = ''Local Network'',
                      region = Some [], country = ''LAN'', isp = Some ''Local Network''\<rparr>)"
    by (simp add: byUser_closed inheritedName_def exHistory_def history_eval twoPlaces_def)
  have b: "map_option userLocation
         (byUser (getHistoryStats exEnv (rev (exHistory twoPlaces))) ''ann'')
       = Some (Some \<lparr>lat = 48.856614, lon = 2.352222, city = ''Unknown'',
                      region = Some [], country = ''Unknown'', isp = Some ''Unknown ISP''\<rparr>)"
    by (simp add: byUser_closed inheritedName_def exHistory_def history_eval twoPlaces_def)
  have "getHistoryStats exEnv (rev (exHistory twoPlaces))
       \<noteq> getHistoryStats exEnv (exHistory twoPlaces)"
  proof
    assume "getHistoryStats exEnv (rev (exHistory twoPlaces))
              = getHistoryStats exEnv (exHistory twoPlaces)"
    then have "map_option userLocation
                 (byUser (getHistoryStats exEnv (rev (exHistory twoPlaces))) ''ann'')
               = map_option userLocation
                   (byUser (getHistoryStats exEnv (exHistory twoPlaces)) ''ann'')"
      by simp
    then show False unfolding a b by simp
  qed
  with a b show ?thesis by simp
qed




end
